theory Spec2Isabelle
  imports Main "HOL-Library.AList"
begin

section \<open>JavaScript values\<close>

text \<open>
  A JavaScript string is a sequence of UTF-16 code units; a code unit is modelled by its
  number. \<open>js\<close> turns an ASCII literal of the theory into such a string.
\<close>

type_synonym jschar = nat
type_synonym jsstring = "jschar list"

definition js :: "string \<Rightarrow> jsstring" where
  "js s = map of_char s"

text \<open>
  The data values: what \<open>JSON.parse\<close> and the document store give, and \<open>undefined\<close>. The
  number type \<open>'n\<close> is left abstract (an IEEE double in the runtime); what the code does
  with numbers is supplied by the \<open>runtime\<close> record below. A data object is the list of its
  own properties in insertion order, and its prototype is \<open>Object.prototype\<close>.
\<close>

datatype 'n jsval =
    JUndefined
  | JNull
  | JBool bool
  | JNum 'n
  | JStr jsstring
  | JArr "'n jsval list"
  | JObj "(jsstring \<times> 'n jsval) list"

type_synonym 'n properties = "(jsstring \<times> 'n jsval) list"

text \<open>\<open>value === undefined || value === null\<close> on a data value.\<close>

fun nullish :: "'n jsval \<Rightarrow> bool" where
  "nullish JUndefined = True"
| "nullish JNull = True"
| "nullish _ = False"

text \<open>
  What reading a property gives: a data value, or a built-in that the object inherits (a
  function of \<open>Object.prototype\<close> or \<open>Array.prototype\<close>, or the object \<open>Object.prototype\<close>
  itself). A built-in is not \<open>undefined\<close> or \<open>null\<close>, and it is not a string, a number, a
  boolean or an array.
\<close>

datatype 'n property = Data "'n jsval" | Native

fun undefined_or_null :: "'n property \<Rightarrow> bool" where
  "undefined_or_null (Data v) = nullish v"
| "undefined_or_null Native = False"

text \<open>
  What the code takes from the language runtime and its libraries:
  \<^item> \<open>RegExp p\<close> is \<open>new RegExp(p)\<close>: \<open>Inl m\<close> when the pattern is malformed (a
    \<open>SyntaxError\<close> with message \<open>m\<close> is thrown), otherwise \<open>Inr\<close> of the function \<open>test\<close> of
    the compiled expression;
  \<^item> \<open>Number_of s\<close> is \<open>Number(s)\<close> on a string, \<open>isNaN\<close> the test for not-a-number,
    \<open>Number_of_nat\<close> the number that a length is;
  \<^item> \<open>JSON_parse s\<close> is \<open>JSON.parse(s)\<close>, \<open>None\<close> when it throws;
  \<^item> \<open>String_of_number\<close> prints a number; \<open>toLowerCase\<close> is the string method;
  \<^item> \<open>Array_prototype_member\<close> tells the names of the properties of \<open>Array.prototype\<close>;
  \<^item> \<open>path_join\<close> is \<open>path.join\<close>.
\<close>

record 'n runtime =
  RegExp :: "jsstring \<Rightarrow> jsstring + (jsstring \<Rightarrow> bool)"
  Number_of :: "jsstring \<Rightarrow> 'n"
  isNaN :: "'n \<Rightarrow> bool"
  Number_of_nat :: "nat \<Rightarrow> 'n"
  JSON_parse :: "jsstring \<Rightarrow> 'n jsval option"
  String_of_number :: "'n \<Rightarrow> jsstring"
  toLowerCase :: "jsstring \<Rightarrow> jsstring"
  Array_prototype_member :: "jsstring \<Rightarrow> bool"
  path_join :: "jsstring list \<Rightarrow> jsstring"

subsection \<open>Objects and their prototypes\<close>

text \<open>The names of the properties of \<open>Object.prototype\<close>. All are functions, except the
  accessor \<open>__proto__\<close>.\<close>

definition Object_prototype_names :: "jsstring list" where
  "Object_prototype_names =
     [js ''constructor'', js ''__defineGetter__'', js ''__defineSetter__'',
      js ''hasOwnProperty'', js ''__lookupGetter__'', js ''__lookupSetter__'',
      js ''isPrototypeOf'', js ''propertyIsEnumerable'', js ''toString'', js ''valueOf'',
      js ''__proto__'', js ''toLocaleString'']"

text \<open>
  The object that the caller passes as \<open>params\<close>: its own properties, and what a read of a
  name that is not an own property gives through the prototype chain. \<open>plain\<close> is an object
  literal or a result of \<open>JSON.parse\<close>, whose prototype is \<open>Object.prototype\<close>: there the
  accessor \<open>__proto__\<close> gives \<open>Object.prototype\<close> itself.
\<close>

record 'n params =
  own :: "'n properties"
  rest :: "jsstring \<Rightarrow> 'n property"

definition Object_prototype_get :: "jsstring \<Rightarrow> 'n property" where
  "Object_prototype_get key = (if key \<in> set Object_prototype_names then Native else Data JUndefined)"

definition plain :: "'n properties \<Rightarrow> 'n params" where
  "plain ps = \<lparr>own = ps, rest = Object_prototype_get\<rparr>"

text \<open>The read \<open>params[name]\<close>.\<close>

definition params_get :: "'n params \<Rightarrow> jsstring \<Rightarrow> 'n property" where
  "params_get params key =
     (case map_of (own params) key of None \<Rightarrow> rest params key | Some v \<Rightarrow> Data v)"

text \<open>
  The object \<open>validated\<close> that \<open>validateParameters\<close> builds from \<open>{}\<close>: its own properties
  and its prototype, which is \<open>Object.prototype\<close> until an assignment to \<open>__proto__\<close> replaces
  it by a data object, a data array or \<open>null\<close>.
\<close>

datatype 'n prototype = ObjectPrototype | NullPrototype | DataPrototype "'n jsval"

record 'n jsobject =
  props :: "'n properties"
  proto :: "'n prototype"

definition empty_object :: "'n jsobject" where
  "empty_object = \<lparr>props = [], proto = ObjectPrototype\<rparr>"

definition is_digit :: "jschar \<Rightarrow> bool" where
  "is_digit c \<longleftrightarrow> 48 \<le> c \<and> c \<le> 57"

definition index_value :: "jsstring \<Rightarrow> nat" where
  "index_value s = foldl (\<lambda>a c. 10 * a + (c - 48)) 0 s"

text \<open>An array index: the canonical decimal form of an integer below \<open>2^32 - 1\<close>.\<close>

definition is_array_index :: "jsstring \<Rightarrow> bool" where
  "is_array_index s \<longleftrightarrow>
     s \<noteq> [] \<and> list_all is_digit s \<and> (s = [48] \<or> hd s \<noteq> 48) \<and> index_value s < 4294967295"

text \<open>
  A read through the prototype of \<open>validated\<close>. A data object gives its own property and then
  what \<open>Object.prototype\<close> gives; a data array gives its elements, its \<open>length\<close>, and then what
  \<open>Array.prototype\<close> and \<open>Object.prototype\<close> give. The accessor \<open>__proto__\<close> of
  \<open>Object.prototype\<close> gives the prototype of the object that is read.
\<close>

definition inherited :: "'n runtime \<Rightarrow> 'n prototype \<Rightarrow> jsstring \<Rightarrow> 'n property" where
  "inherited rt p key =
     (case p of
        ObjectPrototype \<Rightarrow> Object_prototype_get key
      | NullPrototype \<Rightarrow> Data JUndefined
      | DataPrototype v \<Rightarrow>
          (case v of
             JObj ps \<Rightarrow>
               (case map_of ps key of
                  Some x \<Rightarrow> Data x
                | None \<Rightarrow> if key = js ''__proto__'' then Data v else Object_prototype_get key)
           | JArr xs \<Rightarrow>
               if is_array_index key \<and> index_value key < length xs then Data (xs ! index_value key)
               else if key = js ''length'' then Data (JNum (Number_of_nat rt (length xs)))
               else if key = js ''__proto__'' then Data v
               else if Array_prototype_member rt key then Native
               else Object_prototype_get key
           | _ \<Rightarrow> Data JUndefined))"

text \<open>\<open>validated\<close> as the \<open>params\<close> of a later call.\<close>

definition as_params :: "'n runtime \<Rightarrow> 'n jsobject \<Rightarrow> 'n params" where
  "as_params rt obj = \<lparr>own = props obj, rest = inherited rt (proto obj)\<rparr>"

text \<open>
  The assignment \<open>validated[key] = v\<close>. For every name but \<open>__proto__\<close> it creates the own
  property (at the end) or updates it (in place). For \<open>__proto__\<close>, while the object has no
  own property of that name and the accessor of \<open>Object.prototype\<close> is reached through the
  prototype chain, the setter runs: an object, an array or \<open>null\<close> becomes the prototype and
  any other value is ignored; no own property is created.
\<close>

definition setter_reached :: "'n prototype \<Rightarrow> bool" where
  "setter_reached p =
     (case p of
        ObjectPrototype \<Rightarrow> True
      | NullPrototype \<Rightarrow> False
      | DataPrototype v \<Rightarrow> (case v of JObj ps \<Rightarrow> map_of ps (js ''__proto__'') = None | _ \<Rightarrow> True))"

definition obj_set :: "'n jsobject \<Rightarrow> jsstring \<Rightarrow> 'n jsval \<Rightarrow> 'n jsobject" where
  "obj_set obj key v =
     (if key = js ''__proto__'' \<and> map_of (props obj) key = None \<and> setter_reached (proto obj) then
        (case v of
           JObj ps \<Rightarrow> obj\<lparr>proto := DataPrototype v\<rparr>
         | JArr xs \<Rightarrow> obj\<lparr>proto := DataPrototype v\<rparr>
         | JNull \<Rightarrow> obj\<lparr>proto := NullPrototype\<rparr>
         | _ \<Rightarrow> obj)
      else obj\<lparr>props := AList.update key v (props obj)\<rparr>)"

text \<open>
  \<open>Object.entries\<close> enumerates the own properties whose names are array indices first, in
  ascending numeric order, and then the other names in insertion order.
\<close>

definition Object_entries :: "'n jsobject \<Rightarrow> (jsstring \<times> 'n jsval) list" where
  "Object_entries obj =
     sort_key (\<lambda>p. index_value (fst p)) (filter (\<lambda>p. is_array_index (fst p)) (props obj))
     @ filter (\<lambda>p. \<not> is_array_index (fst p)) (props obj)"

subsection \<open>Strings of values\<close>

text \<open>\<open>Array.prototype.join\<close> on strings.\<close>

fun join :: "jsstring \<Rightarrow> jsstring list \<Rightarrow> jsstring" where
  "join sep [] = []"
| "join sep [x] = x"
| "join sep (x # y # ys) = x @ sep @ join sep (y # ys)"

text \<open>Printing of a natural number in decimal, as a template literal prints an integer.\<close>

fun decimal :: "nat \<Rightarrow> jsstring" where
  "decimal n = (if n < 10 then [48 + n] else decimal (n div 10) @ [48 + n mod 10])"

declare decimal.simps [simp del]

text \<open>All the results, when there is one for each.\<close>

fun sequence :: "'a option list \<Rightarrow> 'a list option" where
  "sequence [] = Some []"
| "sequence (x # xs) =
     (case x of
        None \<Rightarrow> None
      | Some y \<Rightarrow> (case sequence xs of None \<Rightarrow> None | Some ys \<Rightarrow> Some (y # ys)))"

text \<open>
  The conversion to string of a template literal \<open>`${v}`\<close> on a data value; \<open>None\<close> when it
  throws a \<open>TypeError\<close>. An array prints its elements joined by commas, with \<open>null\<close> and
  \<open>undefined\<close> elements as the empty string. An object is converted by its \<open>toString\<close>
  method and then its \<open>valueOf\<close> method: a data object without an own property \<open>toString\<close>
  inherits the method that returns \<open>[object Object]\<close>; with an own property \<open>toString\<close>,
  which is data and cannot be called, \<open>valueOf\<close> is tried, which is either an own property
  that cannot be called or the inherited method that returns the object itself, so that no
  primitive value is found and the conversion throws.
\<close>

primrec ToString :: "('n \<Rightarrow> jsstring) \<Rightarrow> 'n jsval \<Rightarrow> jsstring option" where
  "ToString num JUndefined = Some (js ''undefined'')"
| "ToString num JNull = Some (js ''null'')"
| "ToString num (JBool b) = Some (if b then js ''true'' else js ''false'')"
| "ToString num (JNum n) = Some (num n)"
| "ToString num (JStr s) = Some s"
| "ToString num (JArr xs) =
     map_option (join (js '',''))
       (sequence (map (\<lambda>x. if nullish x then Some [] else ToString num x) xs))"
| "ToString num (JObj ps) =
     (if map_of ps (js ''toString'') = None then Some (js ''[object Object]'') else None)"

section \<open>Input validation (src/security/inputValidation.js)\<close>

subsection \<open>sanitizeString\<close>

text \<open>The character class \<open>[\x00-\x08\x0B\x0C\x0E-\x1F\x7F]\<close>.\<close>

definition control_char :: "jschar \<Rightarrow> bool" where
  "control_char c \<longleftrightarrow> c \<le> 8 \<or> c = 11 \<or> c = 12 \<or> (14 \<le> c \<and> c \<le> 31) \<or> c = 127"

text \<open>\<open>.replace(/\r\n/g, '\n')\<close>: one pass from the left over non-overlapping matches.\<close>

fun replace_crlf :: "jsstring \<Rightarrow> jsstring" where
  "replace_crlf (c # d # cs) =
     (if c = 13 \<and> d = 10 then 10 # replace_crlf cs else c # replace_crlf (d # cs))"
| "replace_crlf cs = cs"

text \<open>The white space and line terminators that \<open>String.prototype.trim\<close> removes.\<close>

definition white_space :: "jschar \<Rightarrow> bool" where
  "white_space c \<longleftrightarrow>
     c = 9 \<or> c = 10 \<or> c = 11 \<or> c = 12 \<or> c = 13 \<or> c = 32 \<or> c = 160 \<or> c = 5760
     \<or> (8192 \<le> c \<and> c \<le> 8202) \<or> c = 8232 \<or> c = 8233 \<or> c = 8239 \<or> c = 8287
     \<or> c = 12288 \<or> c = 65279"

definition trim :: "jsstring \<Rightarrow> jsstring" where
  "trim s = rev (dropWhile white_space (rev (dropWhile white_space s)))"

fun sanitizeString :: "'n jsval \<Rightarrow> jsstring" where
  "sanitizeString (JStr v) = trim (replace_crlf (filter (\<lambda>c. \<not> control_char c) v))"
| "sanitizeString _ = []"

subsection \<open>Errors\<close>

text \<open>
  A thrown \<open>Error\<close> object: its message and the two properties the task service reads or
  adds, \<open>stderr\<close> and \<open>executionTime\<close> (absent on an error made by \<open>new Error(msg)\<close>).
\<close>

record js_error =
  err_message :: jsstring
  err_stderr :: "jsstring option"
  err_executionTime :: "int option"

definition Error :: "jsstring \<Rightarrow> js_error" where
  "Error msg = \<lparr>err_message = msg, err_stderr = None, err_executionTime = None\<rparr>"

subsection \<open>Parameter definitions\<close>

text \<open>
  The declared type is one of the four names of the schema's enumeration; \<open>TOther t\<close> is any
  other string, which reaches the \<open>default\<close> branch of the \<open>switch\<close>. \<open>defaultValue\<close> is a
  value of any kind (\<open>Schema.Types.Mixed\<close>): \<open>JNull\<close> is what the schema stores when no default
  is given, \<open>JUndefined\<close> a definition object without the property. The pattern and the message
  are strings or \<open>null\<close>.
\<close>

datatype param_type = TString | TNumber | TBoolean | TArray | TOther jsstring

record 'n parameterDefinition =
  def_name :: jsstring
  def_description :: jsstring
  def_type :: param_type
  def_required :: bool
  defaultValue :: "'n jsval"
  validationPattern :: "jsstring option"
  validationMessage :: "jsstring option"

subsection \<open>validateParameterType\<close>

text \<open>\<open>String.prototype.split\<close> on a one-character separator.\<close>

fun split :: "jschar \<Rightarrow> jsstring \<Rightarrow> jsstring list" where
  "split sep [] = [[]]"
| "split sep (c # cs) =
     (if c = sep then [] # split sep cs
      else (case split sep cs of [] \<Rightarrow> [[c]] | p # ps \<Rightarrow> (c # p) # ps))"

text \<open>
  The value is whatever the read \<open>params[name]\<close> gave. The result object \<open>{ error: msg }\<close>
  is \<open>Inl msg\<close> and \<open>{ value: v }\<close> is \<open>Inr v\<close>; every message is a non-empty string, so the
  caller's test \<open>validatedValue.error\<close> holds exactly on \<open>Inl\<close>.
\<close>

fun validateParameterType ::
  "'n runtime \<Rightarrow> jsstring \<Rightarrow> 'n property \<Rightarrow> param_type \<Rightarrow> jsstring + 'n jsval" where
  "validateParameterType rt name value TString =
     (case value of
        Data (JStr s) \<Rightarrow> Inr (JStr (sanitizeString (JStr s :: 'n jsval)))
      | _ \<Rightarrow> Inl (js ''Parameter '' @ name @ js '' must be a string''))"
| "validateParameterType rt name value TNumber =
     (case value of
        Data (JStr s) \<Rightarrow>
          (let num = Number_of rt s
           in if isNaN rt num then Inl (js ''Parameter '' @ name @ js '' must be a valid number'')
              else Inr (JNum num))
      | Data (JNum n) \<Rightarrow>
          (if isNaN rt n then Inl (js ''Parameter '' @ name @ js '' must be a number'')
           else Inr (JNum n))
      | _ \<Rightarrow> Inl (js ''Parameter '' @ name @ js '' must be a number''))"
| "validateParameterType rt name value TBoolean =
     (case value of
        Data (JStr s) \<Rightarrow>
          (let lower = toLowerCase rt s
           in if lower = js ''true'' then Inr (JBool True)
              else if lower = js ''false'' then Inr (JBool False)
              else Inl (js ''Parameter '' @ name @ js '' must be a boolean (true/false)''))
      | Data (JBool b) \<Rightarrow> Inr (JBool b)
      | _ \<Rightarrow> Inl (js ''Parameter '' @ name @ js '' must be a boolean''))"
| "validateParameterType rt name value TArray =
     (case value of
        Data (JStr s) \<Rightarrow>
          (case JSON_parse rt s of
             Some parsed \<Rightarrow>
               (case parsed of
                  JArr xs \<Rightarrow> Inr parsed
                | _ \<Rightarrow> Inl (js ''Parameter '' @ name @ js '' must be an array''))
           | None \<Rightarrow> Inr (JArr (map (\<lambda>v. JStr (trim v)) (split 44 s))))
      | Data (JArr items) \<Rightarrow>
          Inr (JArr (map (\<lambda>item. case item of JStr s \<Rightarrow> JStr (sanitizeString item) | _ \<Rightarrow> item)
                         items))
      | _ \<Rightarrow> Inl (js ''Parameter '' @ name @ js '' must be an array''))"
| "validateParameterType rt name value (TOther t) =
     Inl (js ''Unsupported parameter type: '' @ t)"

subsection \<open>validateParameters\<close>

text \<open>
  \<open>definitions.forEach(callback)\<close> over the two accumulators \<open>validated\<close> and \<open>errors\<close>; an
  exception thrown by the callback leaves the loop.
\<close>

fun forEach :: "('a \<Rightarrow> 's \<Rightarrow> 'e + 's) \<Rightarrow> 'a list \<Rightarrow> 's \<Rightarrow> 'e + 's" where
  "forEach f [] s = Inr s"
| "forEach f (x # xs) s = (case f x s of Inl e \<Rightarrow> Inl e | Inr s' \<Rightarrow> forEach f xs s')"

text \<open>
  The callback. \<open>pattern_check\<close> is the guard
  \<open>def.type === 'string' && def.validationPattern && validatedValue.value\<close>: it gives the
  pattern and the text to test when all three hold (a \<open>null\<close> or empty pattern and an empty
  text are falsy).
\<close>

definition pattern_check ::
  "'n parameterDefinition \<Rightarrow> 'n jsval \<Rightarrow> (jsstring \<times> jsstring) option" where
  "pattern_check d v =
     (case (def_type d, validationPattern d, v) of
        (TString, Some pat, JStr s) \<Rightarrow> if pat \<noteq> [] \<and> s \<noteq> [] then Some (pat, s) else None
      | _ \<Rightarrow> None)"

definition pattern_message :: "'n parameterDefinition \<Rightarrow> jsstring" where
  "pattern_message d =
     (case validationMessage d of
        Some m \<Rightarrow> if m \<noteq> [] then m else js ''Invalid format for parameter: '' @ def_name d
      | None \<Rightarrow> js ''Invalid format for parameter: '' @ def_name d)"

definition validate_def ::
  "'n runtime \<Rightarrow> 'n params \<Rightarrow> 'n parameterDefinition \<Rightarrow> 'n jsobject \<times> jsstring list
     \<Rightarrow> js_error + 'n jsobject \<times> jsstring list" where
  "validate_def rt params d st =
     (let validated = fst st; errors = snd st;
          name = def_name d; value = params_get params name
      in if def_required d \<and> undefined_or_null value then
           Inr (validated, errors @ [js ''Missing required parameter: '' @ name])
         else if undefined_or_null value \<and> defaultValue d \<noteq> JUndefined then
           Inr (obj_set validated name (defaultValue d), errors)
         else if undefined_or_null value then
           Inr (validated, errors)
         else
           (case validateParameterType rt name value (def_type d) of
              Inl err \<Rightarrow> Inr (validated, errors @ [err])
            | Inr v \<Rightarrow>
                (case pattern_check d v of
                   Some (pat, s) \<Rightarrow>
                     (case RegExp rt pat of
                        Inl m \<Rightarrow> Inl (Error m)
                      | Inr test \<Rightarrow>
                          if \<not> test s then Inr (validated, errors @ [pattern_message d])
                          else Inr (obj_set validated name v, errors))
                 | None \<Rightarrow> Inr (obj_set validated name v, errors))))"

text \<open>\<open>params\<close> is \<open>None\<close> for an argument that is \<open>null\<close>, \<open>undefined\<close> or another falsy value
  (\<open>params = params || {}\<close>).\<close>

definition validateParameters ::
  "'n runtime \<Rightarrow> 'n params option \<Rightarrow> 'n parameterDefinition list
     \<Rightarrow> js_error + 'n jsobject" where
  "validateParameters rt params definitions =
     (let params = (case params of None \<Rightarrow> plain [] | Some p \<Rightarrow> p)
      in case forEach (validate_def rt params) definitions (empty_object, []) of
           Inl e \<Rightarrow> Inl e
         | Inr (validated, errors) \<Rightarrow>
             if length errors > 0 then
               Inl (Error (js ''Invalid parameters: '' @ join (js ''; '') errors))
             else Inr validated)"

section \<open>Role service (src/services/roles/roleService.js)\<close>

text \<open>
  A role document with its embedded permissions. The level is a number of the store; only
  its order is used, so any linear order stands for it. The collection is the list of the
  stored documents together with what makes a query fail: \<open>findOne_fault\<close> and \<open>find_fault\<close>
  hold the message of the rejection when the store rejects the query.
\<close>

record Permission =
  perm_moduleId :: jsstring
  perm_description :: jsstring

record 'l Role =
  role_name :: jsstring
  role_description :: jsstring
  level :: 'l
  permissions :: "Permission list"

record 'l RoleCollection =
  roles :: "'l Role list"
  findOne_fault :: "jsstring option"
  find_fault :: "jsstring option"

text \<open>\<open>Role.findOne({ name: roleName })\<close> and \<open>Role.find({ level: { $gte: l } })\<close>.\<close>

definition Role_findOne :: "'l RoleCollection \<Rightarrow> jsstring \<Rightarrow> js_error + 'l Role option" where
  "Role_findOne db roleName =
     (case findOne_fault db of
        Some m \<Rightarrow> Inl (Error m)
      | None \<Rightarrow> Inr (find (\<lambda>r. role_name r = roleName) (roles db)))"

definition Role_find_gte ::
  "('l::linorder) RoleCollection \<Rightarrow> 'l \<Rightarrow> js_error + 'l Role list" where
  "Role_find_gte db l =
     (case find_fault db of
        Some m \<Rightarrow> Inl (Error m)
      | None \<Rightarrow> Inr (filter (\<lambda>r. level r \<ge> l) (roles db)))"

text \<open>\<open>getRoleByName\<close> logs and rethrows what the query throws.\<close>

definition getRoleByName :: "'l RoleCollection \<Rightarrow> jsstring \<Rightarrow> js_error + 'l Role option" where
  "getRoleByName db roleName = Role_findOne db roleName"

text \<open>\<open>modules.add(x)\<close> on a \<open>Set\<close>, kept as the list of its elements in insertion order
  (what \<open>Array.from(modules)\<close> returns).\<close>

definition Set_add :: "'a list \<Rightarrow> 'a \<Rightarrow> 'a list" where
  "Set_add modules x = (if x \<in> set modules then modules else modules @ [x])"

definition collect_permissions :: "'l Role list \<Rightarrow> jsstring list" where
  "collect_permissions rs =
     fold (\<lambda>role modules.
             fold (\<lambda>permission modules'. Set_add modules' (perm_moduleId permission))
                  (permissions role) modules)
          rs []"

definition getAccessibleModules ::
  "('l::linorder) RoleCollection \<Rightarrow> jsstring \<Rightarrow> js_error + jsstring list" where
  "getAccessibleModules db roleName =
     (case getRoleByName db roleName of
        Inl e \<Rightarrow> Inl e
      | Inr None \<Rightarrow> Inr []
      | Inr (Some role) \<Rightarrow>
          (case Role_find_gte db (level role) of
             Inl e \<Rightarrow> Inl e
           | Inr rs \<Rightarrow> Inr (collect_permissions rs)))"

definition hasModuleAccess ::
  "('l::linorder) RoleCollection \<Rightarrow> jsstring \<Rightarrow> jsstring \<Rightarrow> bool" where
  "hasModuleAccess db roleName moduleId =
     (case getAccessibleModules db roleName of
        Inl e \<Rightarrow> False
      | Inr modules \<Rightarrow> moduleId \<in> set modules)"

section \<open>Task service (src/services/tasks/taskService.js)\<close>

record 'n Module =
  moduleId :: jsstring
  mod_name :: jsstring
  mod_description :: jsstring
  scriptName :: jsstring
  parameterDefinitions :: "'n parameterDefinition list"
  isActive :: bool

text \<open>
  How the race between the child process and the timer of \<open>executeScriptWithTimeout\<close> ends:
  the process exits with status 0 (\<open>execFile\<close> resolves with its output), \<open>execFile\<close> rejects
  (spawn failure, non-zero exit, or its own \<open>timeout\<close> option killed the child), or the timer's
  promise rejects first.
\<close>

datatype race =
    Resolved jsstring jsstring
  | Rejected jsstring "jsstring option"
  | TimerFired

text \<open>
  The surroundings of one call: the stored modules and what makes \<open>Module.findOne\<close> reject,
  the file system, the working directory, the configured \<open>MAX_SCRIPT_RUNTIME\<close>, the reading
  of \<open>Date.now()\<close> before the spawn, and, for the file, arguments, time limit and user of a
  spawn, how the race ends and the reading of \<open>Date.now()\<close> at that moment.
\<close>

record 'n world =
  modules :: "'n Module list"
  Module_fault :: "jsstring option"
  existsSync :: "jsstring \<Rightarrow> bool"
  cwd :: jsstring
  MAX_SCRIPT_RUNTIME :: nat
  startTime :: int
  execFile :: "jsstring \<Rightarrow> jsstring list \<Rightarrow> nat \<Rightarrow> jsstring \<Rightarrow> race \<times> int"

text \<open>A child process that was created: file, argument vector, the \<open>timeout\<close> option, and the
  two variables added to the environment.\<close>

record spawn =
  sp_file :: jsstring
  sp_args :: "jsstring list"
  sp_timeout :: nat
  sp_USER_ID :: jsstring
  sp_SCRIPT_TIMEOUT_MS :: jsstring

text \<open>
  The object \<open>executeScript\<close> returns. \<open>None\<close> is a property the object does not have; for
  \<open>res_stderr\<close> it is also the value \<open>null\<close>.
\<close>

record 'n exec_result =
  success :: bool
  res_moduleId :: "'n jsval"
  res_scriptName :: "jsstring option"
  result :: "jsstring option"
  executionTime :: "int option"
  error :: "jsstring option"
  res_stderr :: "jsstring option"

subsection \<open>Template literals\<close>

text \<open>The \<open>TypeError\<close> that a template literal throws for a value without a primitive form,
  and the template literal \<open>`${v}`\<close>.\<close>

definition TypeError :: js_error where
  "TypeError = Error (js ''Cannot convert object to primitive value'')"

definition template :: "'n runtime \<Rightarrow> 'n jsval \<Rightarrow> js_error + jsstring" where
  "template rt v =
     (case ToString (String_of_number rt) v of None \<Rightarrow> Inl TypeError | Some text \<Rightarrow> Inr text)"

subsection \<open>sanitizeModuleId and getModuleById\<close>

text \<open>The character class \<open>[a-z0-9_]\<close>.\<close>

definition module_id_char :: "jschar \<Rightarrow> bool" where
  "module_id_char c \<longleftrightarrow> (97 \<le> c \<and> c \<le> 122) \<or> (48 \<le> c \<and> c \<le> 57) \<or> c = 95"

fun sanitizeModuleId :: "'n runtime \<Rightarrow> 'n jsval \<Rightarrow> jsstring option" where
  "sanitizeModuleId rt (JStr s) =
     (if s = [] then None else Some (filter module_id_char (toLowerCase rt (trim s))))"
| "sanitizeModuleId rt _ = None"

text \<open>\<open>Module.findOne({ moduleId: id, isActive: true })\<close>.\<close>

definition Module_findOne :: "'n world \<Rightarrow> jsstring \<Rightarrow> js_error + 'n Module option" where
  "Module_findOne w mid =
     (case Module_fault w of
        Some m \<Rightarrow> Inl (Error m)
      | None \<Rightarrow> Inr (find (\<lambda>m. moduleId m = mid \<and> isActive m) (modules w)))"

text \<open>
  The \<open>try\<close> block of \<open>getModuleById\<close>, and the function. A line for the log is the template
  literal that makes it: the lines of the \<open>try\<close> block for an identifier that is not valid and
  of the \<open>catch\<close> block print the identifier that was passed, and throw when it has no string
  form.
\<close>

definition getModuleById_try :: "'n runtime \<Rightarrow> 'n world \<Rightarrow> 'n jsval \<Rightarrow> js_error + 'n Module" where
  "getModuleById_try rt w mid =
     (let invalid = (case template rt mid of
                       Inl e \<Rightarrow> Inl e
                     | Inr line \<Rightarrow> Inl (Error (js ''Invalid module ID'')))
      in case sanitizeModuleId rt mid of
           None \<Rightarrow> invalid
         | Some sanitizedModuleId \<Rightarrow>
             if sanitizedModuleId = [] then invalid
             else
               (case Module_findOne w sanitizedModuleId of
                  Inl e \<Rightarrow> Inl e
                | Inr None \<Rightarrow> Inl (Error (js ''Module not found: '' @ sanitizedModuleId))
                | Inr (Some module) \<Rightarrow> Inr module))"

definition getModuleById :: "'n runtime \<Rightarrow> 'n world \<Rightarrow> 'n jsval \<Rightarrow> js_error + 'n Module" where
  "getModuleById rt w mid =
     (case getModuleById_try rt w mid of
        Inl err \<Rightarrow> (case template rt mid of Inl e \<Rightarrow> Inl e | Inr line \<Rightarrow> Inl err)
      | Inr module \<Rightarrow> Inr module)"

subsection \<open>getScriptPath\<close>

text \<open>The characters that \<open>/[^a-zA-Z0-9_.-]/g\<close> leaves in place.\<close>

definition script_name_char :: "jschar \<Rightarrow> bool" where
  "script_name_char c \<longleftrightarrow>
     (97 \<le> c \<and> c \<le> 122) \<or> (65 \<le> c \<and> c \<le> 90) \<or> (48 \<le> c \<and> c \<le> 57)
     \<or> c = 95 \<or> c = 46 \<or> c = 45"

definition getScriptPath :: "'n runtime \<Rightarrow> 'n world \<Rightarrow> jsstring \<Rightarrow> jsstring option" where
  "getScriptPath rt w name =
     (let sanitizedName = filter script_name_char name
      in if sanitizedName \<noteq> name then None
         else
           (let scriptPath = path_join rt [cwd w, js ''scripts'', sanitizedName]
            in if \<not> existsSync w scriptPath then None else Some scriptPath))"

subsection \<open>paramsToArgs\<close>

text \<open>
  The body of the loop over \<open>Object.entries(params)\<close>, pushing onto \<open>args\<close>; the loops are
  left by the \<open>TypeError\<close> of a template literal.
\<close>

definition push_args ::
  "'n runtime \<Rightarrow> jsstring \<times> 'n jsval \<Rightarrow> jsstring list \<Rightarrow> js_error + jsstring list" where
  "push_args rt entry args =
     (let key = fst entry; value = snd entry
      in if nullish value then Inr args
         else
           (case value of
              JBool b \<Rightarrow> if b then Inr (args @ [js ''--'' @ key]) else Inr args
            | JArr items \<Rightarrow>
                forEach (\<lambda>item args'.
                           case ToString (String_of_number rt) item of
                             None \<Rightarrow> Inl TypeError
                           | Some text \<Rightarrow> Inr (args' @ [js ''--'' @ key @ js ''='' @ text]))
                        items args
            | _ \<Rightarrow>
                (case ToString (String_of_number rt) value of
                   None \<Rightarrow> Inl TypeError
                 | Some text \<Rightarrow> Inr (args @ [js ''--'' @ key @ js ''='' @ text]))))"

definition paramsToArgs :: "'n runtime \<Rightarrow> 'n jsobject \<Rightarrow> js_error + jsstring list" where
  "paramsToArgs rt params = forEach (push_args rt) (Object_entries params) []"

subsection \<open>executeScriptWithTimeout and executeScript\<close>

record exec_output =
  stdout :: jsstring
  out_stderr :: jsstring
  out_executionTime :: int

text \<open>
  The result and the child processes created. Every call creates one process; the error of
  a failed run carries the elapsed time as its \<open>executionTime\<close> property.
\<close>

definition executeScriptWithTimeout ::
  "'n runtime \<Rightarrow> 'n world \<Rightarrow> jsstring \<Rightarrow> jsstring list \<Rightarrow> nat \<Rightarrow> jsstring
     \<Rightarrow> (js_error + exec_output) \<times> spawn list" where
  "executeScriptWithTimeout rt w scriptPath args timeout userId =
     (let child = \<lparr>sp_file = scriptPath, sp_args = args, sp_timeout = timeout,
                   sp_USER_ID = userId, sp_SCRIPT_TIMEOUT_MS = decimal timeout\<rparr>;
          settled = execFile w scriptPath args timeout userId;
          executionTime = snd settled - startTime w
      in (case fst settled of
            Resolved out err \<Rightarrow>
              Inr \<lparr>stdout = out, out_stderr = err, out_executionTime = executionTime\<rparr>
          | Rejected msg err \<Rightarrow>
              Inl \<lparr>err_message = msg, err_stderr = err, err_executionTime = Some executionTime\<rparr>
          | TimerFired \<Rightarrow>
              Inl \<lparr>err_message = js ''Script execution timed out after '' @ decimal timeout @ js ''ms'',
                   err_stderr = None, err_executionTime = Some executionTime\<rparr>,
          [child]))"

text \<open>The object built in the \<open>catch\<close> block of \<open>executeScript\<close>; \<open>error.stderr || null\<close> turns
  an absent or empty \<open>stderr\<close> into \<open>null\<close>.\<close>

definition failure :: "'n jsval \<Rightarrow> js_error \<Rightarrow> 'n exec_result" where
  "failure mid e =
     \<lparr>success = False, res_moduleId = mid, res_scriptName = None, result = None,
      executionTime = None, error = Some (err_message e),
      res_stderr = (case err_stderr e of
                      Some s \<Rightarrow> if s \<noteq> [] then Some s else None
                    | None \<Rightarrow> None)\<rparr>"

text \<open>
  The \<open>try\<close> block of \<open>executeScript\<close> with what it throws as \<open>Inl\<close>, and the function, whose
  \<open>catch\<close> block prints the identifier that was passed into its log line before it builds the
  object. The result is the object returned, or the error with which the promise rejects, and
  the child processes created. The log lines of the \<open>try\<close> block print an identifier that
  \<open>getModuleById\<close> has accepted, which is a string.
\<close>

definition executeScript_try ::
  "'n runtime \<Rightarrow> 'n world \<Rightarrow> 'n jsval \<Rightarrow> 'n params option \<Rightarrow> jsstring
     \<Rightarrow> (js_error + 'n exec_result) \<times> spawn list" where
  "executeScript_try rt w mid parameters userId =
     (case getModuleById rt w mid of
        Inl e \<Rightarrow> (Inl e, [])
      | Inr module \<Rightarrow>
          (case getScriptPath rt w (scriptName module) of
             None \<Rightarrow> (Inl (Error (js ''Script not found: '' @ scriptName module)), [])
           | Some scriptPath \<Rightarrow>
               (case validateParameters rt parameters (parameterDefinitions module) of
                  Inl e \<Rightarrow> (Inl e, [])
                | Inr validatedParams \<Rightarrow>
                    (case paramsToArgs rt validatedParams of
                       Inl e \<Rightarrow> (Inl e, [])
                     | Inr args \<Rightarrow>
                         (let run = executeScriptWithTimeout rt w scriptPath args
                                      (MAX_SCRIPT_RUNTIME w) userId
                          in (case fst run of
                                Inl e \<Rightarrow> (Inl e, snd run)
                              | Inr r \<Rightarrow>
                                  (Inr \<lparr>success = True, res_moduleId = mid,
                                        res_scriptName = Some (scriptName module),
                                        result = Some (stdout r),
                                        executionTime = Some (out_executionTime r),
                                        error = None, res_stderr = None\<rparr>,
                                   snd run)))))))"

definition executeScript ::
  "'n runtime \<Rightarrow> 'n world \<Rightarrow> 'n jsval \<Rightarrow> 'n params option \<Rightarrow> jsstring
     \<Rightarrow> (js_error + 'n exec_result) \<times> spawn list" where
  "executeScript rt w mid parameters userId =
     (let attempt = executeScript_try rt w mid parameters userId
      in (case fst attempt of
            Inl err \<Rightarrow>
              (case template rt mid of
                 Inl e \<Rightarrow> (Inl e, snd attempt)
               | Inr line \<Rightarrow> (Inr (failure mid err), snd attempt))
          | Inr r \<Rightarrow> (Inr r, snd attempt)))"

section \<open>Example data\<close>

text \<open>
  A small runtime for evaluating the services on concrete inputs. Numbers are the natural
  numbers with \<open>None\<close> for \<open>NaN\<close>. Each component agrees with the JavaScript function on a
  fragment of its arguments: \<open>RegExp\<close> on the patterns \<open>^(w1|...|wn)$\<close> whose alternatives
  are words of letters and digits (the form of every pattern of the default modules),
  \<open>Number\<close> on strings of decimal digits, \<open>JSON.parse\<close> on the text \<open>[]\<close>, \<open>toLowerCase\<close> on
  ASCII, the names of \<open>Array.prototype\<close> on those of its methods \<open>join\<close>, \<open>map\<close>, \<open>push\<close> and
  \<open>slice\<close>, and \<open>path.join\<close> on plain segments.
\<close>

definition is_alnum :: "jschar \<Rightarrow> bool" where
  "is_alnum c \<longleftrightarrow> is_digit c \<or> (65 \<le> c \<and> c \<le> 90) \<or> (97 \<le> c \<and> c \<le> 122)"

definition alternatives_pattern :: "jsstring \<Rightarrow> jsstring list option" where
  "alternatives_pattern p =
     (if 4 \<le> length p \<and> take 2 p = js ''^('' \<and> drop (length p - 2) p = js '')$'' then
        (let ws = split 124 (take (length p - 4) (drop 2 p))
         in if list_all (list_all is_alnum) ws then Some ws else None)
      else None)"

definition example_RegExp :: "jsstring \<Rightarrow> jsstring + (jsstring \<Rightarrow> bool)" where
  "example_RegExp p =
     (case alternatives_pattern p of
        Some ws \<Rightarrow> Inr (\<lambda>s. s \<in> set ws)
      | None \<Rightarrow> Inl (js ''Invalid regular expression''))"

definition upper_to_lower :: "jschar \<Rightarrow> jschar" where
  "upper_to_lower c = (if 65 \<le> c \<and> c \<le> 90 then c + 32 else c)"

definition example_runtime :: "nat option runtime" where
  "example_runtime =
     \<lparr>RegExp = example_RegExp,
      Number_of = (\<lambda>s. if s \<noteq> [] \<and> list_all is_digit s then Some (index_value s) else None),
      isNaN = (\<lambda>n. n = None),
      Number_of_nat = Some,
      JSON_parse = (\<lambda>s. if s = js ''[]'' then Some (JArr []) else None),
      String_of_number = (\<lambda>n. case n of None \<Rightarrow> js ''NaN'' | Some k \<Rightarrow> decimal k),
      toLowerCase = map upper_to_lower,
      Array_prototype_member = (\<lambda>key. key \<in> set [js ''join'', js ''map'', js ''push'', js ''slice'']),
      path_join = join (js ''/'')\<rparr>"

text \<open>The default roles of \<open>initDefaultRoles\<close> (src/models/role.js).\<close>

definition admin_role :: "nat Role" where
  "admin_role =
     \<lparr>role_name = js ''admin'', role_description = js ''Administrator with full access'',
      level = 0,
      permissions =
        [\<lparr>perm_moduleId = js ''user_management'',
          perm_description = js ''Manage users and roles''\<rparr>,
         \<lparr>perm_moduleId = js ''system_config'',
          perm_description = js ''System configuration''\<rparr>]\<rparr>"

definition manager_role :: "nat Role" where
  "manager_role =
     \<lparr>role_name = js ''manager'', role_description = js ''Manager with elevated privileges'',
      level = 5,
      permissions =
        [\<lparr>perm_moduleId = js ''reports'', perm_description = js ''Access to reports''\<rparr>]\<rparr>"

definition user_role :: "nat Role" where
  "user_role =
     \<lparr>role_name = js ''user'', role_description = js ''Standard user'',
      level = 10,
      permissions =
        [\<lparr>perm_moduleId = js ''dashboard'', perm_description = js ''User dashboard''\<rparr>]\<rparr>"

definition default_roles :: "nat RoleCollection" where
  "default_roles =
     \<lparr>roles = [admin_role, manager_role, user_role], findOne_fault = None, find_fault = None\<rparr>"

text \<open>The first default module of \<open>initDefaultModules\<close> (src/models/module.js).\<close>

definition format_def :: "nat option parameterDefinition" where
  "format_def =
     \<lparr>def_name = js ''format'', def_description = js ''Output format'', def_type = TString,
      def_required = False, defaultValue = JStr (js ''text''),
      validationPattern = Some (js ''^(text|json|csv)$''),
      validationMessage = Some (js ''Format must be one of: text, json, csv'')\<rparr>"

definition detail_def :: "nat option parameterDefinition" where
  "detail_def =
     \<lparr>def_name = js ''detail'', def_description = js ''Detail level'', def_type = TString,
      def_required = False, defaultValue = JStr (js ''normal''),
      validationPattern = Some (js ''^(minimal|normal|detailed)$''),
      validationMessage = Some (js ''Detail must be one of: minimal, normal, detailed'')\<rparr>"

definition system_info :: "nat option Module" where
  "system_info =
     \<lparr>moduleId = js ''system_info'', mod_name = js ''System Information'',
      mod_description =
        js ''Display system information including CPU, memory, and disk usage'',
      scriptName = js ''system-info.sh'',
      parameterDefinitions = [format_def, detail_def],
      isActive = True\<rparr>"

text \<open>A world in which every path exists and every script prints \<open>ok\<close> after 250 ms.\<close>

definition example_world :: "nat option world" where
  "example_world =
     \<lparr>modules = [system_info], Module_fault = None, existsSync = (\<lambda>p. True),
      cwd = js ''/srv/app'', MAX_SCRIPT_RUNTIME = 30000, startTime = 1000,
      execFile = (\<lambda>file args limit user. (Resolved (js ''ok'') [], 1250))\<rparr>"

text \<open>The same world, with the module's script name set to a path that climbs out of the
  scripts directory.\<close>

definition traversal_module :: "nat option Module" where
  "traversal_module = system_info\<lparr>scriptName := js ''../../etc/passwd''\<rparr>"

definition traversal_world :: "nat option world" where
  "traversal_world = example_world\<lparr>modules := [traversal_module]\<rparr>"

text \<open>Further parameter definitions: an optional flag without a default (the schema stores
  \<open>null\<close>), a required parameter that also has a default, an optional text whose default
  begins with a space, an optional number, and a required parameter with a default whose name
  is the name of a property of \<open>Object.prototype\<close>.\<close>

definition verbose_def :: "nat option parameterDefinition" where
  "verbose_def =
     \<lparr>def_name = js ''verbose'', def_description = js ''Verbose output'', def_type = TBoolean,
      def_required = False, defaultValue = JNull, validationPattern = None,
      validationMessage = None\<rparr>"

definition path_def :: "nat option parameterDefinition" where
  "path_def =
     \<lparr>def_name = js ''path'', def_description = js ''Directory to scan'', def_type = TString,
      def_required = True, defaultValue = JStr (js ''/tmp''), validationPattern = None,
      validationMessage = None\<rparr>"

definition title_def :: "nat option parameterDefinition" where
  "title_def =
     \<lparr>def_name = js ''title'', def_description = js ''Report title'', def_type = TString,
      def_required = False, defaultValue = JStr (js '' report''), validationPattern = None,
      validationMessage = None\<rparr>"

definition count_def :: "nat option parameterDefinition" where
  "count_def =
     \<lparr>def_name = js ''count'', def_description = js ''Number of entries'', def_type = TNumber,
      def_required = False, defaultValue = JNull, validationPattern = None,
      validationMessage = None\<rparr>"

definition constructor_def :: "nat option parameterDefinition" where
  "constructor_def =
     \<lparr>def_name = js ''constructor'', def_description = js ''Constructor name'',
      def_type = TString, def_required = True, defaultValue = JStr (js ''Object''),
      validationPattern = None, validationMessage = None\<rparr>"

text \<open>A validated mapping with one value of each kind.\<close>

definition validated_example :: "nat option jsobject" where
  "validated_example =
     \<lparr>props =
        [(js ''format'', JStr (js ''json'')), (js ''verbose'', JBool True),
         (js ''quiet'', JBool False), (js ''tags'', JArr [JStr (js ''a''), JStr (js ''b'')]),
         (js ''count'', JNum (Some 3)), (js ''skip'', JNull)],
      proto = ObjectPrototype\<rparr>"

text \<open>The example world with a limit of 100 ms and a script that is still running when the
  timer fires, 100 ms after the start.\<close>

definition slow_world :: "nat option world" where
  "slow_world =
     example_world\<lparr>MAX_SCRIPT_RUNTIME := 100,
                   execFile := (\<lambda>file args limit user. (TimerFired, 1100))\<rparr>"

section \<open>Notions used in the statements\<close>

text \<open>The direct grants of a role, as a set of module identifiers.\<close>

definition grants :: "'l Role \<Rightarrow> jsstring set" where
  "grants r = perm_moduleId ` set (permissions r)"

subsection \<open>The callback of validateParameters\<close>

text \<open>
  What the callback does for one definition, as a function of the value that the read
  \<open>params[name]\<close> gave: nothing, a write into \<open>validated\<close>, a message pushed onto \<open>errors\<close>,
  or an exception. \<open>validate_def_outcome\<close> below shows that \<open>validate_def\<close> is exactly this.
  \<open>pushed\<close> is the message that the callback pushes for a definition, if it pushes one.
\<close>

datatype 'n outcome = Skip | Write "'n jsval" | Problem jsstring | Throw js_error

definition outcome_of :: "'n runtime \<Rightarrow> 'n parameterDefinition \<Rightarrow> 'n property \<Rightarrow> 'n outcome" where
  "outcome_of rt d value =
     (if def_required d \<and> undefined_or_null value then
        Problem (js ''Missing required parameter: '' @ def_name d)
      else if undefined_or_null value \<and> defaultValue d \<noteq> JUndefined then Write (defaultValue d)
      else if undefined_or_null value then Skip
      else
        (case validateParameterType rt (def_name d) value (def_type d) of
           Inl err \<Rightarrow> Problem err
         | Inr v \<Rightarrow>
             (case pattern_check d v of
                Some (pat, s) \<Rightarrow>
                  (case RegExp rt pat of
                     Inl m \<Rightarrow> Throw (Error m)
                   | Inr test \<Rightarrow> if \<not> test s then Problem (pattern_message d) else Write v)
              | None \<Rightarrow> Write v)))"

definition pushed :: "'n runtime \<Rightarrow> 'n params \<Rightarrow> 'n parameterDefinition \<Rightarrow> jsstring option" where
  "pushed rt params d =
     (case outcome_of rt d (params_get params (def_name d)) of
        Problem m \<Rightarrow> Some m
      | _ \<Rightarrow> None)"

subsection \<open>Problems of the caller's parameters\<close>

text \<open>
  When a value that was read (neither \<open>undefined\<close> nor \<open>null\<close>) cannot be coerced to the
  declared type, and the message then. A text must be a string. A number must be a number
  that is not \<open>NaN\<close> or a string that \<open>Number\<close> does not turn into \<open>NaN\<close>. A boolean must be a
  boolean or a string that is \<open>true\<close> or \<open>false\<close> in lower case. A list must be an array or a
  string; a string that is JSON must be the JSON of an array, and a string that is not JSON
  is split at its commas. An inherited built-in cannot be coerced to any type, and no value
  can be coerced to a type outside the four.
\<close>

definition coercion_error ::
  "'n runtime \<Rightarrow> jsstring \<Rightarrow> param_type \<Rightarrow> 'n property \<Rightarrow> jsstring option" where
  "coercion_error rt name ty value =
     (case ty of
        TString \<Rightarrow>
          (case value of
             Data (JStr s) \<Rightarrow> None
           | _ \<Rightarrow> Some (js ''Parameter '' @ name @ js '' must be a string''))
      | TNumber \<Rightarrow>
          (case value of
             Data (JStr s) \<Rightarrow>
               if isNaN rt (Number_of rt s)
               then Some (js ''Parameter '' @ name @ js '' must be a valid number'') else None
           | Data (JNum n) \<Rightarrow>
               if isNaN rt n then Some (js ''Parameter '' @ name @ js '' must be a number'')
               else None
           | _ \<Rightarrow> Some (js ''Parameter '' @ name @ js '' must be a number''))
      | TBoolean \<Rightarrow>
          (case value of
             Data (JStr s) \<Rightarrow>
               if toLowerCase rt s = js ''true'' \<or> toLowerCase rt s = js ''false'' then None
               else Some (js ''Parameter '' @ name @ js '' must be a boolean (true/false)'')
           | Data (JBool b) \<Rightarrow> None
           | _ \<Rightarrow> Some (js ''Parameter '' @ name @ js '' must be a boolean''))
      | TArray \<Rightarrow>
          (case value of
             Data (JStr s) \<Rightarrow>
               (case JSON_parse rt s of
                  None \<Rightarrow> None
                | Some parsed \<Rightarrow>
                    (case parsed of
                       JArr xs \<Rightarrow> None
                     | _ \<Rightarrow> Some (js ''Parameter '' @ name @ js '' must be an array'')))
           | Data (JArr items) \<Rightarrow> None
           | _ \<Rightarrow> Some (js ''Parameter '' @ name @ js '' must be an array''))
      | TOther t \<Rightarrow> Some (js ''Unsupported parameter type: '' @ t))"

text \<open>
  The problem of one definition with the caller's parameters, if it has one, and its message.
  The value is what the read \<open>params[name]\<close> gives: the own property of the parameters, or what
  they inherit under the name. The problems are: a required parameter that is missing (the
  value is \<open>undefined\<close> or \<open>null\<close>), a value that cannot be coerced to the declared type, and a
  text whose sanitized form is not empty and fails the pattern of the definition.
\<close>

definition problem :: "'n runtime \<Rightarrow> 'n params \<Rightarrow> 'n parameterDefinition \<Rightarrow> jsstring option" where
  "problem rt params d =
     (let name = def_name d; value = params_get params name
      in if undefined_or_null value then
           (if def_required d then Some (js ''Missing required parameter: '' @ name) else None)
         else
           (case coercion_error rt name (def_type d) value of
              Some m \<Rightarrow> Some m
            | None \<Rightarrow>
                (case (def_type d, value, validationPattern d) of
                   (TString, Data (JStr s), Some pat) \<Rightarrow>
                     (let text = sanitizeString (JStr s :: 'n jsval)
                      in if pat \<noteq> [] \<and> text \<noteq> [] then
                           (case RegExp rt pat of
                              Inr test \<Rightarrow> if test text then None else Some (pattern_message d)
                            | Inl m \<Rightarrow> None)
                         else None)
                 | _ \<Rightarrow> None)))"

text \<open>Every pattern of the schema is a regular expression that compiles.\<close>

definition well_formed_patterns :: "'n runtime \<Rightarrow> 'n parameterDefinition list \<Rightarrow> bool" where
  "well_formed_patterns rt defs =
     list_all (\<lambda>d. case validationPattern d of
                      None \<Rightarrow> True
                    | Some pat \<Rightarrow> (case RegExp rt pat of Inl m \<Rightarrow> False | Inr test \<Rightarrow> True))
              defs"

text \<open>No name of the schema is the name of a property of \<open>Object.prototype\<close>.\<close>

definition ordinary_names :: "'n parameterDefinition list \<Rightarrow> bool" where
  "ordinary_names defs = list_all (\<lambda>d. def_name d \<notin> set Object_prototype_names) defs"

subsection \<open>Values in validated form\<close>

text \<open>A text without the pair carriage return, line feed.\<close>

fun crlf_free :: "jsstring \<Rightarrow> bool" where
  "crlf_free (c # d # cs) = (\<not> (c = 13 \<and> d = 10) \<and> crlf_free (d # cs))"
| "crlf_free cs = True"

text \<open>A text as sanitizing leaves it: no control character of the class, no pair carriage
  return, line feed, and no white space at either end.\<close>

definition clean_text :: "jsstring \<Rightarrow> bool" where
  "clean_text t \<longleftrightarrow>
     list_all (\<lambda>c. \<not> control_char c) t \<and> crlf_free t
     \<and> (t = [] \<or> (\<not> white_space (hd t) \<and> \<not> white_space (last t)))"

text \<open>
  A value in validated form for a definition: a number that is not \<open>NaN\<close>, a boolean, a clean
  text that matches the pattern when the pattern is tested, a list whose text elements are
  clean; by the declared type.
\<close>

definition validated_form :: "'n runtime \<Rightarrow> 'n parameterDefinition \<Rightarrow> 'n jsval \<Rightarrow> bool" where
  "validated_form rt d v =
     (case def_type d of
        TString \<Rightarrow>
          (case v of
             JStr t \<Rightarrow>
               clean_text t
               \<and> (case pattern_check d v of
                     None \<Rightarrow> True
                   | Some (pat, s) \<Rightarrow> (case RegExp rt pat of Inl m \<Rightarrow> False | Inr test \<Rightarrow> test s))
           | _ \<Rightarrow> False)
      | TNumber \<Rightarrow> (case v of JNum n \<Rightarrow> \<not> isNaN rt n | _ \<Rightarrow> False)
      | TBoolean \<Rightarrow> (case v of JBool b \<Rightarrow> True | _ \<Rightarrow> False)
      | TArray \<Rightarrow>
          (case v of
             JArr xs \<Rightarrow> list_all (\<lambda>x. case x of JStr t \<Rightarrow> clean_text t | _ \<Rightarrow> True) xs
           | _ \<Rightarrow> False)
      | TOther t \<Rightarrow> False)"

text \<open>No text of the value, itself or an element of the list that it is, holds the pair
  carriage return, line feed.\<close>

definition crlf_free_value :: "'n jsval \<Rightarrow> bool" where
  "crlf_free_value v =
     (case v of
        JStr t \<Rightarrow> crlf_free t
      | JArr xs \<Rightarrow> list_all (\<lambda>x. case x of JStr t \<Rightarrow> crlf_free t | _ \<Rightarrow> True) xs
      | _ \<Rightarrow> True)"

text \<open>The value was read from the parameters and is there; a list was read as an array.\<close>

definition read_for :: "param_type \<Rightarrow> 'n property \<Rightarrow> bool" where
  "read_for ty r =
     (\<not> undefined_or_null r
      \<and> (case ty of
           TArray \<Rightarrow> (case r of Data (JArr items) \<Rightarrow> True | _ \<Rightarrow> False)
         | _ \<Rightarrow> True))"

text \<open>The own property of the validated object under a name (\<open>undefined\<close> when there is
  none).\<close>

definition entry :: "'n jsobject \<Rightarrow> jsstring \<Rightarrow> 'n jsval" where
  "entry obj key = (case map_of (props obj) key of None \<Rightarrow> JUndefined | Some v \<Rightarrow> v)"

text \<open>Every carriage return of the text is directly followed by a line feed.\<close>

fun cr_before_lf_only :: "jsstring \<Rightarrow> bool" where
  "cr_before_lf_only (c # d # cs) =
     (if c = 13 then d = 10 \<and> cr_before_lf_only cs else cr_before_lf_only (d # cs))"
| "cr_before_lf_only [c] = (c \<noteq> 13)"
| "cr_before_lf_only [] = True"

subsection \<open>Arguments\<close>

text \<open>
  The arguments of one entry of the validated mapping, in the words of the specification: none
  for \<open>null\<close> or \<open>undefined\<close>, the bare flag for \<open>true\<close>, none for \<open>false\<close>, one
  \<open>--name=element\<close> per element of a list, and \<open>--name=value\<close> for anything else; \<open>None\<close> when
  a value or an element has no string form.
\<close>

definition entry_arguments ::
  "'n runtime \<Rightarrow> jsstring \<Rightarrow> 'n jsval \<Rightarrow> jsstring list option" where
  "entry_arguments rt name value =
     (case value of
        JUndefined \<Rightarrow> Some []
      | JNull \<Rightarrow> Some []
      | JBool b \<Rightarrow> Some (if b then [js ''--'' @ name] else [])
      | JArr elements \<Rightarrow>
          map_option (map (\<lambda>text. js ''--'' @ name @ js ''='' @ text))
            (sequence (map (ToString (String_of_number rt)) elements))
      | _ \<Rightarrow>
          map_option (\<lambda>text. [js ''--'' @ name @ js ''='' @ text])
            (ToString (String_of_number rt) value))"

section \<open>Strings\<close>

lemma js_eq_iff [simp]: "js a = js b \<longleftrightarrow> a = b"
proof -
  have "inj (of_char :: char \<Rightarrow> nat)"
    by (rule injI) simp
  then show ?thesis
    unfolding js_def by (rule inj_map_eq_map)
qed

lemma js_Nil [simp]: "js [] = []"
  by (simp add: js_def)

lemma js_Nil_iff [simp]: "js s = [] \<longleftrightarrow> s = []"
  by (simp add: js_def)

lemma Nil_js_iff [simp]: "[] = js s \<longleftrightarrow> s = []"
  by (simp add: js_def)

section \<open>Script path resolution\<close>

lemma traversal_not_clean:
  "filter script_name_char (pre @ js ''../'' @ post) \<noteq> pre @ js ''../'' @ post"
proof
  assume "filter script_name_char (pre @ js ''../'' @ post) = pre @ js ''../'' @ post"
  then have "\<forall>c \<in> set (pre @ js ''../'' @ post). script_name_char c"
    by (metis filter_id_conv)
  then have "script_name_char 47"
    by (simp add: js_def)
  then show False
    by (simp add: script_name_char_def)
qed

lemma sanitize_system_info:
  "sanitizeModuleId example_runtime (JStr (js ''system_info'')) = Some (js ''system_info'')"
  by (simp add: example_runtime_def js_def trim_def white_space_def upper_to_lower_def
      module_id_char_def)

lemma accepted_identifier_is_string:
  assumes "getModuleById rt w mid = Inr m"
  shows "\<exists>s. mid = JStr s"
  using assms
  by (cases mid) (auto simp: getModuleById_def getModuleById_try_def split: sum.splits)

lemma template_string [simp]: "template rt (JStr s) = Inr s"
  by (simp add: template_def)

lemma getModuleById_string:
  "getModuleById rt w (JStr s)
     = (case sanitizeModuleId rt (JStr s) of
          None \<Rightarrow> Inl (Error (js ''Invalid module ID''))
        | Some sanitizedModuleId \<Rightarrow>
            if sanitizedModuleId = [] then Inl (Error (js ''Invalid module ID''))
            else
              (case Module_findOne w sanitizedModuleId of
                 Inl e \<Rightarrow> Inl e
               | Inr None \<Rightarrow> Inl (Error (js ''Module not found: '' @ sanitizedModuleId))
               | Inr (Some module) \<Rightarrow> Inr module))"
  by (simp add: getModuleById_def getModuleById_try_def Let_def
      split: sum.splits option.splits)

lemma traversal_module_found:
  "getModuleById example_runtime traversal_world (JStr (js ''system_info'')) = Inr traversal_module"
  unfolding getModuleById_string sanitize_system_info
  by (simp add: example_world_def traversal_world_def traversal_module_def system_info_def
      Module_findOne_def)

text \<open>
  Claim C1. A script name that the stripping of every character outside \<open>[A-Za-z0-9_.-]\<close>
  changes, and in particular a name that contains \<open>../\<close>, has no script path; when the
  module that \<open>executeScript\<close> resolves has such a name, the result is the failure
  \<open>Script not found\<close> and no child process has been created.
\<close>

theorem unclean_script_name_is_never_spawned:
  assumes "filter script_name_char name \<noteq> name \<or> name = pre @ js ''../'' @ post"
  shows "getScriptPath rt w name = None \<and>
         (getModuleById rt w mid = Inr m \<and> scriptName m = name \<longrightarrow>
            executeScript rt w mid parameters userId
              = (Inr (failure mid (Error (js ''Script not found: '' @ name))), [])
            \<and> (\<exists>r. fst (executeScript rt w mid parameters userId) = Inr r
                    \<and> success r = False))"
proof -
  from assms have dirty: "filter script_name_char name \<noteq> name"
    using traversal_not_clean by auto
  then have none: "getScriptPath rt w name = None"
    by (simp add: getScriptPath_def)
  have "executeScript rt w mid parameters userId
          = (Inr (failure mid (Error (js ''Script not found: '' @ name))), [])"
    if found: "getModuleById rt w mid = Inr m" and script: "scriptName m = name"
  proof -
    from found obtain s where "mid = JStr s"
      using accepted_identifier_is_string by blast
    then have "template rt mid = Inr s"
      by simp
    with found script none show ?thesis
      by (simp add: executeScript_def executeScript_try_def)
  qed
  with none show ?thesis
    by (simp add: failure_def)
qed

theorem unclean_script_name_is_never_spawned_witness:
  "getScriptPath example_runtime traversal_world (js ''../../etc/passwd'') = None
   \<and> executeScript example_runtime traversal_world (JStr (js ''system_info'')) None (js ''u1'')
       = (Inr (failure (JStr (js ''system_info''))
                 (Error (js ''Script not found: '' @ js ''../../etc/passwd''))), [])
   \<and> success (failure (JStr (js ''system_info'') :: nat option jsval)
                (Error (js ''Script not found: '' @ js ''../../etc/passwd''))) = False"
proof -
  have name: "js ''../../etc/passwd'' = [] @ js ''../'' @ js ''../etc/passwd''"
    by (simp add: js_def)
  have script: "scriptName traversal_module = js ''../../etc/passwd''"
    by (simp add: traversal_module_def)
  from unclean_script_name_is_never_spawned
            [of "js ''../../etc/passwd''" "[]" "js ''../etc/passwd''" example_runtime
                traversal_world "JStr (js ''system_info'')" traversal_module None "js ''u1''"]
          name script traversal_module_found
  have path: "getScriptPath example_runtime traversal_world (js ''../../etc/passwd'') = None"
    and run: "executeScript example_runtime traversal_world (JStr (js ''system_info'')) None
                (js ''u1'')
       = (Inr (failure (JStr (js ''system_info''))
                 (Error (js ''Script not found: '' @ js ''../../etc/passwd''))), [])"
    and "\<exists>r. fst (executeScript example_runtime traversal_world (JStr (js ''system_info''))
                     None (js ''u1'')) = Inr r \<and> success r = False"
    by blast+
  then have "success (failure (JStr (js ''system_info'') :: nat option jsval)
                (Error (js ''Script not found: '' @ js ''../../etc/passwd''))) = False"
    by auto
  with path run show ?thesis
    by (intro conjI)
qed

section \<open>Permission resolution\<close>

lemma set_Set_add: "set (Set_add ms x) = insert x (set ms)"
  by (auto simp: Set_add_def)

lemma set_fold_permissions:
  "set (fold (\<lambda>permission modules'. Set_add modules' (perm_moduleId permission)) ps acc)
     = set acc \<union> perm_moduleId ` set ps"
  by (induction ps arbitrary: acc) (auto simp: set_Set_add)

lemma set_fold_roles:
  "set (fold (\<lambda>role modules.
               fold (\<lambda>permission modules'. Set_add modules' (perm_moduleId permission))
                    (permissions role) modules) rs acc)
     = set acc \<union> (\<Union>r\<in>set rs. grants r)"
  by (induction rs arbitrary: acc) (auto simp: set_fold_permissions grants_def)

lemma set_collect_permissions:
  "set (collect_permissions rs) = (\<Union>r\<in>set rs. grants r)"
  by (simp add: collect_permissions_def set_fold_roles)

lemma getAccessibleModules_existing:
  assumes "getRoleByName db roleName = Inr (Some R)" and "find_fault db = None"
  shows "getAccessibleModules db roleName
           = Inr (collect_permissions (filter (\<lambda>r. level r \<ge> level R) (roles db)))"
  using assms by (simp add: getAccessibleModules_def Role_find_gte_def)

lemma getRoleByName_mem:
  assumes "getRoleByName db roleName = Inr (Some R)"
  shows "R \<in> set (roles db)"
  using assms
  by (auto simp: getRoleByName_def Role_findOne_def find_Some_iff split: option.splits)

lemma manager_found: "getRoleByName default_roles (js ''manager'') = Inr (Some manager_role)"
  by (simp add: getRoleByName_def Role_findOne_def default_roles_def admin_role_def
      manager_role_def)

lemma user_found: "getRoleByName default_roles (js ''user'') = Inr (Some user_role)"
  by (simp add: getRoleByName_def Role_findOne_def default_roles_def admin_role_def
      manager_role_def user_role_def)

lemma manager_modules:
  "getAccessibleModules default_roles (js ''manager'') = Inr [js ''reports'', js ''dashboard'']"
  by (simp add: getAccessibleModules_def getRoleByName_def Role_findOne_def default_roles_def
      admin_role_def manager_role_def user_role_def Role_find_gte_def collect_permissions_def
      Set_add_def)

lemma user_modules:
  "getAccessibleModules default_roles (js ''user'') = Inr [js ''dashboard'']"
  by (simp add: getAccessibleModules_def getRoleByName_def Role_findOne_def default_roles_def
      admin_role_def manager_role_def user_role_def Role_find_gte_def collect_permissions_def
      Set_add_def)

text \<open>
  Claim C2. For an existing role \<open>R1\<close> (and a store that answers the query by level),
  \<open>getAccessibleModules\<close> returns exactly the module identifiers granted to the roles whose
  level is greater than or equal to the level of \<open>R1\<close>; they include the direct grants of
  \<open>R1\<close>, and the modules of every role with a strictly greater level are among them.
\<close>

theorem accessible_modules_are_the_grants_at_or_above_the_level:
  assumes "getRoleByName db n1 = Inr (Some R1)" and "find_fault db = None"
  shows "\<exists>ms. getAccessibleModules db n1 = Inr ms
           \<and> set ms = (\<Union>r \<in> {r \<in> set (roles db). level R1 \<le> level r}. grants r)
           \<and> grants R1 \<subseteq> set ms
           \<and> (\<forall>n2 R2 ms2. getRoleByName db n2 = Inr (Some R2) \<and> level R1 < level R2
                  \<and> getAccessibleModules db n2 = Inr ms2 \<longrightarrow> set ms2 \<subseteq> set ms)"
proof -
  let ?at = "\<lambda>R. {r \<in> set (roles db). level R \<le> level r}"
  let ?ms = "collect_permissions (filter (\<lambda>r. level r \<ge> level R1) (roles db))"
  have res: "getAccessibleModules db n1 = Inr ?ms"
    using assms by (rule getAccessibleModules_existing)
  have filtered: "set (filter (\<lambda>r. level r \<ge> level R) (roles db)) = ?at R" for R :: "'a Role"
    by auto
  have union: "set ?ms = (\<Union>r \<in> ?at R1. grants r)"
    unfolding set_collect_permissions filtered ..
  have "R1 \<in> ?at R1"
    using getRoleByName_mem [OF assms(1)] by simp
  then have own: "grants R1 \<subseteq> set ?ms"
    unfolding union by (rule UN_upper)
  have mono: "set ms2 \<subseteq> set ?ms"
    if found: "getRoleByName db n2 = Inr (Some R2)" and lt: "level R1 < level R2"
      and ms2: "getAccessibleModules db n2 = Inr ms2" for n2 R2 ms2
  proof -
    have "getAccessibleModules db n2
            = Inr (collect_permissions (filter (\<lambda>r. level r \<ge> level R2) (roles db)))"
      using found assms(2) by (rule getAccessibleModules_existing)
    with ms2 have "ms2 = collect_permissions (filter (\<lambda>r. level r \<ge> level R2) (roles db))"
      by simp
    then have eq2: "set ms2 = (\<Union>r \<in> ?at R2. grants r)"
      by (simp only: set_collect_permissions filtered)
    have "?at R2 \<subseteq> ?at R1"
      using lt by auto
    then have "(\<Union>r \<in> ?at R2. grants r) \<subseteq> (\<Union>r \<in> ?at R1. grants r)"
      by (rule UN_mono) simp
    then show ?thesis
      unfolding eq2 union .
  qed
  show ?thesis
  proof (rule exI [of _ ?ms], intro conjI allI impI)
    show "getAccessibleModules db n1 = Inr ?ms"
      by (rule res)
    show "set ?ms = (\<Union>r \<in> ?at R1. grants r)"
      by (rule union)
    show "grants R1 \<subseteq> set ?ms"
      by (rule own)
    fix n2 R2 ms2
    assume "getRoleByName db n2 = Inr (Some R2) \<and> level R1 < level R2
              \<and> getAccessibleModules db n2 = Inr ms2"
    then show "set ms2 \<subseteq> set ?ms"
      using mono by blast
  qed
qed

theorem accessible_modules_are_the_grants_at_or_above_the_level_witness:
  "getRoleByName default_roles (js ''manager'') = Inr (Some manager_role)
   \<and> find_fault default_roles = None
   \<and> getAccessibleModules default_roles (js ''manager'') = Inr [js ''reports'', js ''dashboard'']
   \<and> set [js ''reports'', js ''dashboard'']
       = (\<Union>r \<in> {r \<in> set (roles default_roles). level manager_role \<le> level r}. grants r)
   \<and> grants manager_role \<subseteq> set [js ''reports'', js ''dashboard'']
   \<and> getRoleByName default_roles (js ''user'') = Inr (Some user_role)
   \<and> level manager_role < level user_role
   \<and> getAccessibleModules default_roles (js ''user'') = Inr [js ''dashboard'']
   \<and> set [js ''dashboard''] \<subseteq> set [js ''reports'', js ''dashboard'']"
proof -
  have fault: "find_fault default_roles = None"
    by (simp add: default_roles_def)
  have lt: "level manager_role < level user_role"
    by (simp add: manager_role_def user_role_def)
  obtain ms where all: "getAccessibleModules default_roles (js ''manager'') = Inr ms
      \<and> set ms
          = (\<Union>r \<in> {r \<in> set (roles default_roles). level manager_role \<le> level r}. grants r)
      \<and> grants manager_role \<subseteq> set ms
      \<and> (\<forall>n2 R2 ms2. getRoleByName default_roles n2 = Inr (Some R2)
             \<and> level manager_role < level R2
             \<and> getAccessibleModules default_roles n2 = Inr ms2 \<longrightarrow> set ms2 \<subseteq> set ms)"
    using accessible_modules_are_the_grants_at_or_above_the_level [OF manager_found fault] ..
  from all have "getAccessibleModules default_roles (js ''manager'') = Inr ms"
    by (rule conjunct1)
  then have eq: "ms = [js ''reports'', js ''dashboard'']"
    by (simp only: manager_modules sum.inject)
  note facts = all [unfolded eq]
  have union: "set [js ''reports'', js ''dashboard'']
      = (\<Union>r \<in> {r \<in> set (roles default_roles). level manager_role \<le> level r}. grants r)"
    using facts by (rule conjunct1 [OF conjunct2])
  have own: "grants manager_role \<subseteq> set [js ''reports'', js ''dashboard'']"
    using facts by (rule conjunct1 [OF conjunct2 [OF conjunct2]])
  have "\<forall>n2 R2 ms2. getRoleByName default_roles n2 = Inr (Some R2)
             \<and> level manager_role < level R2
             \<and> getAccessibleModules default_roles n2 = Inr ms2
           \<longrightarrow> set ms2 \<subseteq> set [js ''reports'', js ''dashboard'']"
    using facts by (rule conjunct2 [OF conjunct2 [OF conjunct2]])
  then have "getRoleByName default_roles (js ''user'') = Inr (Some user_role)
             \<and> level manager_role < level user_role
             \<and> getAccessibleModules default_roles (js ''user'') = Inr [js ''dashboard'']
           \<longrightarrow> set [js ''dashboard''] \<subseteq> set [js ''reports'', js ''dashboard'']"
    by (elim allE)
  then have mono: "set [js ''dashboard''] \<subseteq> set [js ''reports'', js ''dashboard'']"
    using user_found lt user_modules by (elim impE) (intro conjI)
  show ?thesis
    by (intro conjI) (rule manager_found fault manager_modules union own user_found lt
        user_modules mono)+
qed

text \<open>
  Claim C3. \<open>hasModuleAccess\<close> is true exactly when \<open>getAccessibleModules\<close> returns a list that
  contains the module; for a role that does not exist the list is empty and the answer is
  false; and when the resolution throws, the answer is false (the function has no exceptional
  result at all).
\<close>

theorem hasModuleAccess_is_membership_and_fails_closed:
  "(hasModuleAccess db roleName m
      \<longleftrightarrow> (\<exists>ms. getAccessibleModules db roleName = Inr ms \<and> m \<in> set ms))
   \<and> (getRoleByName db roleName = Inr None
        \<longrightarrow> getAccessibleModules db roleName = Inr [] \<and> \<not> hasModuleAccess db roleName m)
   \<and> (getAccessibleModules db roleName = Inl e \<longrightarrow> \<not> hasModuleAccess db roleName m)"
  by (auto simp: hasModuleAccess_def getAccessibleModules_def split: sum.splits option.splits)

theorem hasModuleAccess_is_membership_and_fails_closed_witness:
  "hasModuleAccess default_roles (js ''manager'') (js ''dashboard'')
   \<and> \<not> hasModuleAccess default_roles (js ''manager'') (js ''system_config'')
   \<and> getRoleByName default_roles (js ''nobody'') = Inr None
   \<and> getAccessibleModules default_roles (js ''nobody'') = Inr []
   \<and> \<not> hasModuleAccess default_roles (js ''nobody'') (js ''dashboard'')
   \<and> getAccessibleModules (default_roles\<lparr>find_fault := Some (js ''connection lost'')\<rparr>)
        (js ''manager'') = Inl (Error (js ''connection lost''))
   \<and> \<not> hasModuleAccess (default_roles\<lparr>find_fault := Some (js ''connection lost'')\<rparr>)
        (js ''manager'') (js ''reports'')"
proof -
  have nobody: "getRoleByName default_roles (js ''nobody'') = Inr None"
    by (simp add: getRoleByName_def Role_findOne_def default_roles_def admin_role_def
        manager_role_def user_role_def)
  have lost: "getAccessibleModules (default_roles\<lparr>find_fault := Some (js ''connection lost'')\<rparr>)
                (js ''manager'') = Inl (Error (js ''connection lost''))"
    by (simp add: getAccessibleModules_def getRoleByName_def Role_findOne_def default_roles_def
        admin_role_def manager_role_def Role_find_gte_def)
  show ?thesis
    using hasModuleAccess_is_membership_and_fails_closed
            [of default_roles "js ''manager''" "js ''dashboard''" "Error []"]
          hasModuleAccess_is_membership_and_fails_closed
            [of default_roles "js ''manager''" "js ''system_config''" "Error []"]
          hasModuleAccess_is_membership_and_fails_closed
            [of default_roles "js ''nobody''" "js ''dashboard''" "Error []"]
          hasModuleAccess_is_membership_and_fails_closed
            [of "default_roles\<lparr>find_fault := Some (js ''connection lost'')\<rparr>" "js ''manager''"
                "js ''reports''" "Error (js ''connection lost'')"]
          nobody lost manager_modules
    by simp
qed

section \<open>Parameter validation\<close>

declare sanitizeString.simps [simp del]

subsection \<open>The callback, definition by definition\<close>

lemma validate_def_outcome:
  "validate_def rt params d (v, e) =
     (case outcome_of rt d (params_get params (def_name d)) of
        Skip \<Rightarrow> Inr (v, e)
      | Write x \<Rightarrow> Inr (obj_set v (def_name d) x, e)
      | Problem m \<Rightarrow> Inr (v, e @ [m])
      | Throw er \<Rightarrow> Inl er)"
  by (simp add: validate_def_def outcome_of_def Let_def split: sum.splits option.splits prod.splits)

lemma pattern_check_SomeD:
  "pattern_check d v = Some (pat, s) \<Longrightarrow> validationPattern d = Some pat"
  by (auto simp: pattern_check_def split: param_type.splits option.splits jsval.splits if_splits)

lemma well_formed_no_throw:
  assumes "well_formed_patterns rt defs" and "d \<in> set defs"
  shows "outcome_of rt d value \<noteq> Throw er"
proof -
  from assms have wf: "case validationPattern d of None \<Rightarrow> True
      | Some pat \<Rightarrow> (case RegExp rt pat of Inl m \<Rightarrow> False | Inr test \<Rightarrow> True)"
    by (simp add: well_formed_patterns_def list_all_iff)
  show ?thesis
    using wf
    by (auto simp: outcome_of_def split: sum.splits option.splits prod.splits
        dest!: pattern_check_SomeD)
qed

lemma forEach_validate_errors:
  "forEach (validate_def rt params) defs (v, e) = Inr (v', e')
     \<Longrightarrow> e' = e @ List.map_filter (pushed rt params) defs"
proof (induction defs arbitrary: v e)
  case Nil
  then show ?case by simp
next
  case (Cons d defs)
  show ?case
  proof (cases "outcome_of rt d (params_get params (def_name d))")
    case Skip
    with Cons.prems have "forEach (validate_def rt params) defs (v, e) = Inr (v', e')"
      by (simp add: validate_def_outcome)
    from Cons.IH [OF this] Skip show ?thesis
      by (simp add: pushed_def)
  next
    case (Write x)
    with Cons.prems
    have "forEach (validate_def rt params) defs (obj_set v (def_name d) x, e) = Inr (v', e')"
      by (simp add: validate_def_outcome)
    from Cons.IH [OF this] Write show ?thesis
      by (simp add: pushed_def)
  next
    case (Problem m)
    with Cons.prems have "forEach (validate_def rt params) defs (v, e @ [m]) = Inr (v', e')"
      by (simp add: validate_def_outcome)
    from Cons.IH [OF this] Problem show ?thesis
      by (simp add: pushed_def)
  next
    case (Throw er)
    with Cons.prems show ?thesis
      by (simp add: validate_def_outcome)
  qed
qed

lemma forEach_validate_returns:
  assumes "well_formed_patterns rt defs"
  shows "\<exists>v' e'. forEach (validate_def rt params) defs (v, e) = Inr (v', e')"
  using assms
proof (induction defs arbitrary: v e)
  case Nil
  then show ?case by simp
next
  case (Cons d defs)
  from Cons.prems have wf: "well_formed_patterns rt defs"
    by (simp add: well_formed_patterns_def)
  have nt: "outcome_of rt d (params_get params (def_name d)) \<noteq> Throw er" for er
    using well_formed_no_throw [OF Cons.prems] by simp
  show ?case
  proof (cases "outcome_of rt d (params_get params (def_name d))")
    case Skip
    then show ?thesis using Cons.IH [OF wf] by (simp add: validate_def_outcome)
  next
    case (Write x)
    then show ?thesis using Cons.IH [OF wf] by (simp add: validate_def_outcome)
  next
    case (Problem m)
    then show ?thesis using Cons.IH [OF wf] by (simp add: validate_def_outcome)
  next
    case (Throw er)
    with nt [of er] show ?thesis by simp
  qed
qed

lemma validateParameters_pushed:
  assumes "List.map_filter (pushed rt params) defs \<noteq> []"
  shows "(\<exists>er. validateParameters rt (Some params) defs = Inl er)
         \<and> (well_formed_patterns rt defs \<longrightarrow>
              validateParameters rt (Some params) defs
                = Inl (Error (js ''Invalid parameters: ''
                         @ join (js ''; '') (List.map_filter (pushed rt params) defs))))"
proof -
  let ?run = "forEach (validate_def rt params) defs (empty_object, [])"
  have collected: "?run = Inr (v', e') \<Longrightarrow> e' = List.map_filter (pushed rt params) defs"
    for v' e'
    using forEach_validate_errors [of rt params defs empty_object "[]" v' e'] by simp
  have fails: "\<exists>er. validateParameters rt (Some params) defs = Inl er"
  proof (cases ?run)
    case (Inl er)
    then show ?thesis by (simp add: validateParameters_def)
  next
    case (Inr st)
    obtain v' e' where st: "st = (v', e')" by (cases st)
    with Inr collected assms have "e' \<noteq> []" by simp
    with Inr st show ?thesis by (simp add: validateParameters_def)
  qed
  have msg: "validateParameters rt (Some params) defs
                = Inl (Error (js ''Invalid parameters: ''
                         @ join (js ''; '') (List.map_filter (pushed rt params) defs)))"
    if "well_formed_patterns rt defs"
  proof -
    from forEach_validate_returns [OF that] obtain v' e' where run: "?run = Inr (v', e')"
      by blast
    with collected have "e' = List.map_filter (pushed rt params) defs" by simp
    with run assms show ?thesis by (simp add: validateParameters_def)
  qed
  from fails msg show ?thesis by blast
qed

subsection \<open>Problems and pushed messages\<close>

text \<open>The coercion fails exactly on the values that \<open>coercion_error\<close> describes, with its
  message.\<close>

lemma coercion_error_iff:
  "validateParameterType rt name value ty = Inl m
     \<longleftrightarrow> coercion_error rt name ty value = Some m"
  by (cases ty)
     (auto simp: coercion_error_def Let_def split: option.splits jsval.splits property.splits)

lemma coercion_error_None:
  "coercion_error rt name ty value = None
     \<longleftrightarrow> (\<exists>v. validateParameterType rt name value ty = Inr v)"
proof -
  have "coercion_error rt name ty value = None
          \<longleftrightarrow> (\<forall>m. coercion_error rt name ty value \<noteq> Some m)"
    by (cases "coercion_error rt name ty value") simp_all
  also have "\<dots> \<longleftrightarrow> (\<forall>m. validateParameterType rt name value ty \<noteq> Inl m)"
    by (simp only: coercion_error_iff)
  also have "\<dots> \<longleftrightarrow> (\<exists>v. validateParameterType rt name value ty = Inr v)"
    by (cases "validateParameterType rt name value ty") simp_all
  finally show ?thesis .
qed

text \<open>The messages that the callback pushes are the messages of the problems.\<close>

lemma problem_pushed: "problem rt params d = pushed rt params d"
proof -
  let ?read = "params_get params (def_name d)"
  show ?thesis
  proof (cases "undefined_or_null ?read")
    case True
    then show ?thesis
      by (simp add: problem_def pushed_def outcome_of_def)
  next
    case False
    show ?thesis
    proof (cases "validateParameterType rt (def_name d) ?read (def_type d)")
      case (Inl m)
      then have "coercion_error rt (def_name d) (def_type d) ?read = Some m"
        by (simp add: coercion_error_iff)
      with False Inl show ?thesis
        by (simp add: problem_def pushed_def outcome_of_def)
    next
      case (Inr v)
      then have none: "coercion_error rt (def_name d) (def_type d) ?read = None"
        using coercion_error_None by blast
      have pattern: "(case pattern_check d v of
             Some (pat, s) \<Rightarrow>
               (case RegExp rt pat of
                  Inr test \<Rightarrow> if test s then None else Some (pattern_message d)
                | Inl m \<Rightarrow> None)
           | None \<Rightarrow> None)
        = (case (def_type d, ?read, validationPattern d) of
             (TString, Data (JStr s), Some pat) \<Rightarrow>
               (let text = sanitizeString (JStr s :: 'a jsval)
                in if pat \<noteq> [] \<and> text \<noteq> [] then
                     (case RegExp rt pat of
                        Inr test \<Rightarrow> if test text then None else Some (pattern_message d)
                      | Inl m \<Rightarrow> None)
                   else None)
           | _ \<Rightarrow> None)"
        using Inr
        by (cases "def_type d"; cases ?read)
           (auto simp: pattern_check_def Let_def
                 split: option.splits jsval.splits sum.splits if_splits)
      have "pushed rt params d
        = (case pattern_check d v of
             Some (pat, s) \<Rightarrow>
               (case RegExp rt pat of
                  Inr test \<Rightarrow> if test s then None else Some (pattern_message d)
                | Inl m \<Rightarrow> None)
           | None \<Rightarrow> None)"
        using False Inr
        by (simp add: pushed_def outcome_of_def split: option.splits sum.splits)
      moreover have "problem rt params d
        = (case (def_type d, ?read, validationPattern d) of
             (TString, Data (JStr s), Some pat) \<Rightarrow>
               (let text = sanitizeString (JStr s :: 'a jsval)
                in if pat \<noteq> [] \<and> text \<noteq> [] then
                     (case RegExp rt pat of
                        Inr test \<Rightarrow> if test text then None else Some (pattern_message d)
                      | Inl m \<Rightarrow> None)
                   else None)
           | _ \<Rightarrow> None)"
        using False none by (simp add: problem_def)
      ultimately show ?thesis
        using pattern by simp
    qed
  qed
qed

lemma problems_pushed: "problem rt params = pushed rt params"
  by (rule ext) (rule problem_pushed)

subsection \<open>Reading the validated object back\<close>

lemma ordinary_not_proto:
  "key \<notin> set Object_prototype_names \<Longrightarrow> key \<noteq> js ''__proto__''"
  by (auto simp: Object_prototype_names_def)

lemma obj_set_ordinary:
  "key \<noteq> js ''__proto__'' \<Longrightarrow> obj_set obj key v = obj\<lparr>props := AList.update key v (props obj)\<rparr>"
  by (simp add: obj_set_def)

lemma entry_obj_set:
  "key \<noteq> js ''__proto__'' \<Longrightarrow>
     entry (obj_set obj key x) key' = (if key' = key then x else entry obj key')"
  by (simp add: entry_def obj_set_ordinary update_conv')

lemma proto_obj_set:
  "key \<noteq> js ''__proto__'' \<Longrightarrow> proto (obj_set obj key x) = proto obj"
  by (simp add: obj_set_ordinary)

lemma entry_empty_object: "entry empty_object key = JUndefined"
  by (simp add: entry_def empty_object_def)

lemma as_params_get:
  assumes "proto V = ObjectPrototype" and "key \<notin> set Object_prototype_names"
  shows "params_get (as_params rt V) key = Data (entry V key)"
  using assms
  by (simp add: params_get_def as_params_def entry_def inherited_def Object_prototype_get_def
      split: option.splits)

lemma validateParameterType_not_nullish:
  "validateParameterType rt name value ty = Inr v \<Longrightarrow> \<not> nullish v"
  by (cases ty)
     (auto simp: Let_def split: jsval.splits if_splits option.splits property.splits)

lemma outcome_Skip_nullish:
  assumes "outcome_of rt d value = Skip" and "undefined_or_null value'"
  shows "outcome_of rt d value' = Skip"
  using assms
  by (auto simp: outcome_of_def split: if_splits sum.splits option.splits prod.splits)

lemma outcome_Write_nullish:
  assumes "outcome_of rt d value = Write x" and "nullish x"
  shows "outcome_of rt d (Data x) = Write x"
  using assms
  by (auto simp: outcome_of_def split: if_splits sum.splits option.splits prod.splits
      dest: validateParameterType_not_nullish)

lemma forEach_validate_no_throw:
  "forEach (validate_def rt params) defs (v, e) = Inr (v', e') \<Longrightarrow> d \<in> set defs
     \<Longrightarrow> outcome_of rt d (params_get params (def_name d)) \<noteq> Throw er"
proof (induction defs arbitrary: v e)
  case Nil
  then show ?case by simp
next
  case (Cons a defs)
  then show ?case
    by (cases "outcome_of rt a (params_get params (def_name a))")
       (auto simp: validate_def_outcome)
qed

lemma forEach_validate_proto:
  "forEach (validate_def rt params) defs (v, e) = Inr (v', e')
     \<Longrightarrow> js ''__proto__'' \<notin> def_name ` set defs \<Longrightarrow> proto v' = proto v"
proof (induction defs arbitrary: v e)
  case Nil
  then show ?case by simp
next
  case (Cons a defs)
  then show ?case
    by (cases "outcome_of rt a (params_get params (def_name a))")
       (auto simp: validate_def_outcome proto_obj_set)
qed

lemma forEach_validate_frame:
  "forEach (validate_def rt params) defs (v, e) = Inr (v', e')
     \<Longrightarrow> js ''__proto__'' \<notin> def_name ` set defs
     \<Longrightarrow> n \<notin> def_name ` set defs \<Longrightarrow> entry v' n = entry v n"
proof (induction defs arbitrary: v e)
  case Nil
  then show ?case by simp
next
  case (Cons a defs)
  then show ?case
    by (cases "outcome_of rt a (params_get params (def_name a))")
       (auto simp: validate_def_outcome entry_obj_set)
qed

lemma forEach_validate_entry:
  "forEach (validate_def rt params) defs (v, e) = Inr (v', e')
     \<Longrightarrow> js ''__proto__'' \<notin> def_name ` set defs
     \<Longrightarrow> distinct (map def_name defs) \<Longrightarrow> d \<in> set defs
     \<Longrightarrow> entry v' (def_name d)
          = (case outcome_of rt d (params_get params (def_name d)) of
               Write x \<Rightarrow> x
             | _ \<Rightarrow> entry v (def_name d))"
proof (induction defs arbitrary: v e)
  case Nil
  then show ?case by simp
next
  case (Cons a defs)
  let ?o = "outcome_of rt a (params_get params (def_name a))"
  from Cons.prems(1) obtain v1 e1 where
    step: "validate_def rt params a (v, e) = Inr (v1, e1)"
    and rest: "forEach (validate_def rt params) defs (v1, e1) = Inr (v', e')"
    by (auto split: sum.splits)
  from Cons.prems(2) have np: "js ''__proto__'' \<notin> def_name ` set defs"
    and na: "def_name a \<noteq> js ''__proto__''"
    by auto
  from Cons.prems(3) have dist: "distinct (map def_name defs)"
    and fresh: "def_name a \<notin> def_name ` set defs"
    by auto
  show ?case
  proof (cases "d = a")
    case True
    have "entry v' (def_name a) = entry v1 (def_name a)"
      using rest np fresh by (rule forEach_validate_frame)
    also have "entry v1 (def_name a) = (case ?o of Write x \<Rightarrow> x | _ \<Rightarrow> entry v (def_name a))"
      using step na by (cases ?o) (auto simp: validate_def_outcome entry_obj_set)
    finally show ?thesis using True by (simp split: outcome.splits)
  next
    case False
    with Cons.prems(4) have mem: "d \<in> set defs" by simp
    with fresh have ne: "def_name d \<noteq> def_name a" by (metis imageI)
    have "entry v1 (def_name d) = entry v (def_name d)"
      using step ne na by (cases ?o) (auto simp: validate_def_outcome entry_obj_set)
    with Cons.IH [OF rest np dist mem] show ?thesis by (simp split: outcome.splits)
  qed
qed

lemma forEach_validate_cong:
  "(\<And>d. d \<in> set defs \<Longrightarrow>
       outcome_of rt d (params_get params' (def_name d))
         = outcome_of rt d (params_get params (def_name d)))
   \<Longrightarrow> forEach (validate_def rt params') defs st = forEach (validate_def rt params) defs st"
proof (induction defs arbitrary: st)
  case Nil
  then show ?case by simp
next
  case (Cons a defs)
  obtain v e where st: "st = (v, e)" by (cases st)
  have "validate_def rt params' a (v, e) = validate_def rt params a (v, e)"
    using Cons.prems [of a] by (simp add: validate_def_outcome)
  moreover have "forEach (validate_def rt params') defs st' = forEach (validate_def rt params) defs st'" for st'
    using Cons.prems by (intro Cons.IH) simp
  ultimately show ?case by (simp add: st split: sum.splits)
qed

lemma validateParameters_Inr:
  "validateParameters rt (Some params) defs = Inr V
     \<longleftrightarrow> forEach (validate_def rt params) defs (empty_object, []) = Inr (V, [])"
  by (auto simp: validateParameters_def split: sum.splits prod.splits if_splits)

subsection \<open>Text\<close>

text \<open>
  What validation does to a text: only a string is accepted; the result is the string
  without the control characters of the class, with each \<open>\r\n\<close> found by one pass from the
  left replaced by \<open>\n\<close>, and trimmed. It has no control character of the class and no white
  space at either end, and it has no carriage return when every carriage return of the
  input (after the control characters are removed) is directly followed by a line feed.
\<close>

lemma set_replace_crlf: "set (replace_crlf s) \<subseteq> insert 10 (set s)"
  by (induction s rule: replace_crlf.induct) auto

lemma replace_crlf_no_cr: "cr_before_lf_only s \<Longrightarrow> 13 \<notin> set (replace_crlf s)"
  by (induction s rule: replace_crlf.induct) (auto split: if_splits)

lemma set_trim: "set (trim s) \<subseteq> set s"
proof -
  have "set (dropWhile white_space (rev (dropWhile white_space s))) \<subseteq> set (rev (dropWhile white_space s))"
    by (auto dest: set_dropWhileD)
  also have "\<dots> \<subseteq> set s"
    by (auto dest: set_dropWhileD)
  finally show ?thesis
    by (simp add: trim_def)
qed

lemma last_dropWhile: "dropWhile P xs \<noteq> [] \<Longrightarrow> last (dropWhile P xs) = last xs"
  by (induction xs) (auto split: if_splits)

lemma trim_ends:
  "trim s = [] \<or> (\<not> white_space (hd (trim s)) \<and> \<not> white_space (last (trim s)))"
proof (cases "trim s = []")
  case True
  then show ?thesis by simp
next
  case False
  let ?z = "dropWhile white_space s"
  let ?u = "dropWhile white_space (rev ?z)"
  from False have u: "?u \<noteq> []"
    by (simp add: trim_def)
  have z: "?z \<noteq> []"
  proof
    assume empty: "?z = []"
    from u show False
      unfolding empty by simp
  qed
  from u have "\<not> white_space (hd ?u)"
    by (rule hd_dropWhile)
  then have last_ok: "\<not> white_space (last (trim s))"
    using u by (simp add: trim_def last_rev)
  have "hd (trim s) = last ?u"
    using u by (simp add: trim_def hd_rev)
  also have "\<dots> = last (rev ?z)"
    using u by (rule last_dropWhile)
  also have "\<dots> = hd ?z"
    using z by (simp add: last_rev)
  finally have "hd (trim s) = hd ?z" .
  moreover have "\<not> white_space (hd ?z)"
    using z by (rule hd_dropWhile)
  ultimately show ?thesis
    using last_ok by simp
qed

lemma sanitized:
  fixes s :: jsstring
  defines "t \<equiv> trim (replace_crlf (filter (\<lambda>c. \<not> control_char c) s))"
  shows "list_all (\<lambda>c. \<not> control_char c) t"
    and "t = [] \<or> (\<not> white_space (hd t) \<and> \<not> white_space (last t))"
    and "cr_before_lf_only (filter (\<lambda>c. \<not> control_char c) s) \<Longrightarrow> 13 \<notin> set t"
proof -
  let ?f = "filter (\<lambda>c. \<not> control_char c) s"
  have "set t \<subseteq> insert 10 (set ?f)"
    unfolding t_def using set_trim [of "replace_crlf ?f"] set_replace_crlf [of ?f] by blast
  then show "list_all (\<lambda>c. \<not> control_char c) t"
    by (auto simp: list_all_iff control_char_def)
  show "t = [] \<or> (\<not> white_space (hd t) \<and> \<not> white_space (last t))"
    unfolding t_def by (rule trim_ends)
  show "13 \<notin> set t" if "cr_before_lf_only ?f"
    unfolding t_def using replace_crlf_no_cr [OF that] set_trim [of "replace_crlf ?f"] by blast
qed

lemma text_validation:
  "validateParameterType rt name value TString = Inr v \<Longrightarrow>
     \<exists>s t. value = Data (JStr s) \<and> v = JStr t
       \<and> t = trim (replace_crlf (filter (\<lambda>c. \<not> control_char c) s))
       \<and> list_all (\<lambda>c. \<not> control_char c) t
       \<and> (t = [] \<or> (\<not> white_space (hd t) \<and> \<not> white_space (last t)))
       \<and> (cr_before_lf_only (filter (\<lambda>c. \<not> control_char c) s) \<longrightarrow> 13 \<notin> set t)"
proof -
  assume ok: "validateParameterType rt name value TString = Inr v"
  then obtain s where str: "value = Data (JStr s)"
    by (auto split: property.splits jsval.splits)
  with ok have v: "v = JStr (trim (replace_crlf (filter (\<lambda>c. \<not> control_char c) s)))"
    by (simp add: sanitizeString.simps)
  from str v sanitized [of s] show ?thesis
    by blast
qed

lemma text_rejects_other_values:
  "(\<forall>s. value \<noteq> Data (JStr s)) \<Longrightarrow>
     validateParameterType rt name value TString
       = Inl (js ''Parameter '' @ name @ js '' must be a string'')"
  by (auto split: property.splits jsval.splits)

text \<open>Sanitizing leaves a clean text as it is, and a sanitized text without the pair carriage
  return, line feed is clean.\<close>

lemma replace_crlf_id: "crlf_free s \<Longrightarrow> replace_crlf s = s"
  by (induction s rule: replace_crlf.induct) auto

lemma trim_id:
  assumes "s = [] \<or> (\<not> white_space (hd s) \<and> \<not> white_space (last s))"
  shows "trim s = s"
proof (cases "s = []")
  case True
  then show ?thesis by (simp add: trim_def)
next
  case False
  with assms have ends: "\<not> white_space (hd s)" "\<not> white_space (last s)"
    by auto
  from False ends(1) have front: "dropWhile white_space s = s"
    by (cases s) auto
  from False ends(2) have "dropWhile white_space (rev s) = rev s"
    by (cases "rev s") (auto simp: hd_rev dest: arg_cong [where f = hd])
  with front show ?thesis
    by (simp add: trim_def)
qed

lemma sanitize_clean_text:
  assumes "clean_text t"
  shows "sanitizeString (JStr t) = t"
proof -
  from assms have "filter (\<lambda>c. \<not> control_char c) t = t"
    by (simp add: clean_text_def filter_id_conv list_all_iff)
  with assms show ?thesis
    by (simp add: sanitizeString.simps clean_text_def replace_crlf_id trim_id)
qed

lemma sanitized_clean_text:
  assumes "crlf_free (sanitizeString (JStr s))"
  shows "clean_text (sanitizeString (JStr s))"
  using assms sanitized(1,2) [of s]
  by (simp add: sanitizeString.simps clean_text_def)

lemma sanitize_clean_items:
  "list_all (\<lambda>x. case x of JStr t \<Rightarrow> clean_text t | _ \<Rightarrow> True) xs \<Longrightarrow>
     map (\<lambda>item. case item of JStr s \<Rightarrow> JStr (sanitizeString item) | _ \<Rightarrow> item) xs = xs"
  by (induction xs) (auto simp: sanitize_clean_text split: jsval.splits)

lemma sanitized_clean_items:
  "list_all (\<lambda>x. case x of JStr t \<Rightarrow> crlf_free t | _ \<Rightarrow> True)
     (map (\<lambda>item. case item of JStr s \<Rightarrow> JStr (sanitizeString item) | _ \<Rightarrow> item) xs) \<Longrightarrow>
   list_all (\<lambda>x. case x of JStr t \<Rightarrow> clean_text t | _ \<Rightarrow> True)
     (map (\<lambda>item. case item of JStr s \<Rightarrow> JStr (sanitizeString item) | _ \<Rightarrow> item) xs)"
  by (induction xs) (auto simp: sanitized_clean_text split: jsval.splits)

subsection \<open>Values in validated form are fixed\<close>

lemma validated_form_outcome:
  assumes "validated_form rt d x"
  shows "outcome_of rt d (Data x) = Write x"
proof (cases "def_type d")
  case TString
  with assms obtain t where x: "x = JStr t" and clean: "clean_text t"
    and pat: "case pattern_check d x of
                None \<Rightarrow> True
              | Some (pat, s) \<Rightarrow> (case RegExp rt pat of Inl m \<Rightarrow> False | Inr test \<Rightarrow> test s)"
    by (auto simp: validated_form_def split: jsval.splits)
  from clean have "sanitizeString (JStr t :: 'a jsval) = t"
    by (rule sanitize_clean_text)
  with TString x pat show ?thesis
    by (auto simp: outcome_of_def split: option.splits sum.splits)
next
  case TNumber
  with assms show ?thesis
    by (auto simp: validated_form_def outcome_of_def pattern_check_def split: jsval.splits)
next
  case TBoolean
  with assms show ?thesis
    by (auto simp: validated_form_def outcome_of_def pattern_check_def split: jsval.splits)
next
  case TArray
  with assms show ?thesis
    by (auto simp: validated_form_def outcome_of_def pattern_check_def sanitize_clean_items
        split: jsval.splits)
next
  case (TOther t)
  with assms show ?thesis
    by (simp add: validated_form_def)
qed

lemma coerced_validated_form:
  assumes "outcome_of rt d r = Write x" and "read_for (def_type d) r" and "crlf_free_value x"
  shows "validated_form rt d x"
proof -
  from assms(2) have here: "\<not> undefined_or_null r"
    by (simp add: read_for_def)
  with assms(1) have co: "validateParameterType rt (def_name d) r (def_type d) = Inr x"
    by (auto simp: outcome_of_def split: sum.splits option.splits prod.splits if_splits)
  from assms(1) here co have pat: "case pattern_check d x of
                None \<Rightarrow> True
              | Some (pat, s) \<Rightarrow> (case RegExp rt pat of Inl m \<Rightarrow> False | Inr test \<Rightarrow> test s)"
    by (auto simp: outcome_of_def split: sum.splits option.splits prod.splits if_splits)
  show ?thesis
  proof (cases "def_type d")
    case TString
    with co obtain s where x: "x = JStr (sanitizeString (JStr s :: 'a jsval))"
      by (auto split: property.splits jsval.splits)
    with assms(3) have "clean_text (sanitizeString (JStr s :: 'a jsval))"
      by (simp add: crlf_free_value_def sanitized_clean_text)
    with TString x pat show ?thesis
      by (simp add: validated_form_def)
  next
    case TNumber
    with co show ?thesis
      by (auto simp: validated_form_def Let_def split: property.splits jsval.splits if_splits)
  next
    case TBoolean
    with co show ?thesis
      by (auto simp: validated_form_def Let_def split: property.splits jsval.splits if_splits)
  next
    case TArray
    with assms(2) obtain items where r: "r = Data (JArr items)"
      by (auto simp: read_for_def split: property.splits jsval.splits)
    with TArray co assms(3) show ?thesis
      by (auto simp: validated_form_def crlf_free_value_def sanitized_clean_items)
  next
    case (TOther t)
    with co show ?thesis
      by simp
  qed
qed

subsection \<open>The example definitions evaluated\<close>

lemma format_def_sel [simp]:
  "def_name format_def = js ''format''" "def_type format_def = TString"
  "def_required format_def = False" "defaultValue format_def = JStr (js ''text'')"
  "validationPattern format_def = Some (js ''^(text|json|csv)$'')"
  "validationMessage format_def = Some (js ''Format must be one of: text, json, csv'')"
  by (simp_all add: format_def_def)

lemma detail_def_sel [simp]:
  "def_name detail_def = js ''detail''" "def_type detail_def = TString"
  "def_required detail_def = False" "defaultValue detail_def = JStr (js ''normal'')"
  "validationPattern detail_def = Some (js ''^(minimal|normal|detailed)$'')"
  "validationMessage detail_def = Some (js ''Detail must be one of: minimal, normal, detailed'')"
  by (simp_all add: detail_def_def)

lemma verbose_def_sel [simp]:
  "def_name verbose_def = js ''verbose''" "def_type verbose_def = TBoolean"
  "def_required verbose_def = False" "defaultValue verbose_def = JNull"
  "validationPattern verbose_def = None" "validationMessage verbose_def = None"
  by (simp_all add: verbose_def_def)

lemma path_def_sel [simp]:
  "def_name path_def = js ''path''" "def_type path_def = TString"
  "def_required path_def = True" "defaultValue path_def = JStr (js ''/tmp'')"
  "validationPattern path_def = None" "validationMessage path_def = None"
  by (simp_all add: path_def_def)

lemma title_def_sel [simp]:
  "def_name title_def = js ''title''" "def_type title_def = TString"
  "def_required title_def = False" "defaultValue title_def = JStr (js '' report'')"
  "validationPattern title_def = None" "validationMessage title_def = None"
  by (simp_all add: title_def_def)

lemma count_def_sel [simp]:
  "def_name count_def = js ''count''" "def_type count_def = TNumber"
  "def_required count_def = False" "defaultValue count_def = JNull"
  "validationPattern count_def = None" "validationMessage count_def = None"
  by (simp_all add: count_def_def)

lemma constructor_def_sel [simp]:
  "def_name constructor_def = js ''constructor''" "def_type constructor_def = TString"
  "def_required constructor_def = True" "defaultValue constructor_def = JStr (js ''Object'')"
  "validationPattern constructor_def = None" "validationMessage constructor_def = None"
  by (simp_all add: constructor_def_def)

lemma example_RegExp_format:
  "RegExp example_runtime (js ''^(text|json|csv)$'')
     = Inr (\<lambda>s. s \<in> set [js ''text'', js ''json'', js ''csv''])"
  by (simp add: example_runtime_def example_RegExp_def alternatives_pattern_def js_def
      is_alnum_def is_digit_def)

lemma example_RegExp_detail:
  "RegExp example_runtime (js ''^(minimal|normal|detailed)$'')
     = Inr (\<lambda>s. s \<in> set [js ''minimal'', js ''normal'', js ''detailed''])"
  by (simp add: example_runtime_def example_RegExp_def alternatives_pattern_def js_def
      is_alnum_def is_digit_def)

lemma sanitize_empty: "sanitizeString (JStr []) = []"
  by (simp add: sanitizeString.simps trim_def)

lemma sanitize_xml: "sanitizeString (JStr (js ''xml'')) = js ''xml''"
  by (simp add: sanitizeString.simps js_def trim_def white_space_def control_char_def)

lemma sanitize_huge: "sanitizeString (JStr (js ''huge'')) = js ''huge''"
  by (simp add: sanitizeString.simps js_def trim_def white_space_def control_char_def)

lemma sanitize_json: "sanitizeString (JStr (js ''json'')) = js ''json''"
  by (simp add: sanitizeString.simps js_def trim_def white_space_def control_char_def)

lemma count_5: "Number_of example_runtime (js ''5'') = Some 5"
  by (simp add: example_runtime_def js_def is_digit_def index_value_def)

lemma params_get_plain:
  "params_get (plain ps) key
     = (case map_of ps key of
          None \<Rightarrow> if key \<in> set Object_prototype_names then Native else Data JUndefined
        | Some v \<Rightarrow> Data v)"
  by (simp add: params_get_def plain_def Object_prototype_get_def split: option.splits)

lemma example_names_ordinary:
  "js ''format'' \<notin> set Object_prototype_names" "js ''detail'' \<notin> set Object_prototype_names"
  "js ''verbose'' \<notin> set Object_prototype_names" "js ''path'' \<notin> set Object_prototype_names"
  "js ''title'' \<notin> set Object_prototype_names" "js ''count'' \<notin> set Object_prototype_names"
  "js ''constructor'' \<in> set Object_prototype_names"
  by (simp_all add: Object_prototype_names_def)

lemma example_obj_set:
  "obj_set obj (js ''format'') v = obj\<lparr>props := AList.update (js ''format'') v (props obj)\<rparr>"
  "obj_set obj (js ''detail'') v = obj\<lparr>props := AList.update (js ''detail'') v (props obj)\<rparr>"
  "obj_set obj (js ''verbose'') v = obj\<lparr>props := AList.update (js ''verbose'') v (props obj)\<rparr>"
  "obj_set obj (js ''title'') v = obj\<lparr>props := AList.update (js ''title'') v (props obj)\<rparr>"
  "obj_set obj (js ''count'') v = obj\<lparr>props := AList.update (js ''count'') v (props obj)\<rparr>"
  by (simp_all add: obj_set_def)

lemma format_empty_outcome:
  "outcome_of example_runtime format_def (Data (JStr [])) = Write (JStr [])"
  by (simp add: outcome_of_def sanitize_empty pattern_check_def)

lemma xml_problem:
  "problem example_runtime
     (plain [(js ''format'', JStr (js ''xml'')), (js ''detail'', JStr (js ''huge''))])
     format_def = Some (js ''Format must be one of: text, json, csv'')"
  by (simp add: problem_def params_get_plain coercion_error_def sanitize_xml
      example_RegExp_format pattern_message_def)

lemma huge_problem:
  "problem example_runtime
     (plain [(js ''format'', JStr (js ''xml'')), (js ''detail'', JStr (js ''huge''))])
     detail_def = Some (js ''Detail must be one of: minimal, normal, detailed'')"
  by (simp add: problem_def params_get_plain coercion_error_def sanitize_huge
      example_RegExp_detail pattern_message_def)

lemma example_patterns_well_formed:
  "well_formed_patterns example_runtime [format_def, detail_def]"
  by (simp add: well_formed_patterns_def example_RegExp_format example_RegExp_detail)

subsection \<open>Collected errors\<close>

text \<open>
  Claim C4, as the code has it. The value of a parameter is what the read \<open>params[name]\<close>
  gives, own or inherited. When at least one definition has a problem with the caller's
  parameters (a required parameter whose value is \<open>undefined\<close> or \<open>null\<close>, a value that cannot
  be coerced to the declared type, or a text whose sanitized form is not empty and fails its
  pattern), \<open>validateParameters\<close> returns no mapping at all; and when every pattern of the
  schema compiles, it throws the error whose message is \<open>Invalid parameters:\<close> followed by
  the messages of all the problems, one for each, in the order of the definitions, joined by
  \<open>; \<close>.
\<close>

theorem every_problem_is_reported_and_no_mapping_is_returned:
  assumes "d \<in> set defs" and "problem rt params d \<noteq> None"
  shows "(\<exists>er. validateParameters rt (Some params) defs = Inl er)
         \<and> (well_formed_patterns rt defs \<longrightarrow>
              validateParameters rt (Some params) defs
                = Inl (Error (js ''Invalid parameters: ''
                         @ join (js ''; '') (List.map_filter (problem rt params) defs))))"
proof -
  from assms have "List.map_filter (problem rt params) defs \<noteq> []"
    by (auto simp: List.map_filter_def filter_empty_conv)
  then have "List.map_filter (pushed rt params) defs \<noteq> []"
    by (simp add: problems_pushed)
  from validateParameters_pushed [OF this] show ?thesis
    by (simp add: problems_pushed)
qed

theorem every_problem_is_reported_and_no_mapping_is_returned_witness:
  "format_def \<in> set [format_def, detail_def]
   \<and> problem example_runtime
        (plain [(js ''format'', JStr (js ''xml'')), (js ''detail'', JStr (js ''huge''))])
        format_def \<noteq> None
   \<and> well_formed_patterns example_runtime [format_def, detail_def]
   \<and> validateParameters example_runtime
        (Some (plain [(js ''format'', JStr (js ''xml'')), (js ''detail'', JStr (js ''huge''))]))
        [format_def, detail_def]
      = Inl (Error (js ''Invalid parameters: '' @ js ''Format must be one of: text, json, csv''
                  @ js ''; '' @ js ''Detail must be one of: minimal, normal, detailed''))"
proof -
  let ?raw = "plain [(js ''format'', JStr (js ''xml'')), (js ''detail'', JStr (js ''huge''))]
                :: nat option params"
  have mem: "format_def \<in> set [format_def, detail_def]"
    by simp
  have pr: "problem example_runtime ?raw format_def \<noteq> None"
    by (simp add: xml_problem)
  from every_problem_is_reported_and_no_mapping_is_returned [OF mem pr]
    example_patterns_well_formed
  have "validateParameters example_runtime (Some ?raw) [format_def, detail_def]
      = Inl (Error (js ''Invalid parameters: ''
               @ join (js ''; '') (List.map_filter (problem example_runtime ?raw)
                   [format_def, detail_def])))"
    by blast
  then show ?thesis
    using mem pr example_patterns_well_formed by (simp add: xml_problem huge_problem)
qed

text \<open>
  Claim C4 as stated fails for a text whose sanitized form is empty: the guard
  \<open>validatedValue.value\<close> skips the pattern test. The empty text does not match the
  pattern \<open>^(text|json|csv)$\<close>, and validation succeeds with it in the mapping.
\<close>

theorem empty_text_is_not_tested_against_the_pattern:
  "(case RegExp example_runtime (js ''^(text|json|csv)$'') of
      Inl m \<Rightarrow> False
    | Inr test \<Rightarrow> \<not> test (sanitizeString (JStr [])))
   \<and> validateParameters example_runtime (Some (plain [(js ''format'', JStr [])])) [format_def]
       = Inr \<lparr>props = [(js ''format'', JStr [])], proto = ObjectPrototype\<rparr>"
proof -
  have "validate_def example_runtime (plain [(js ''format'', JStr [])]) format_def
          (empty_object, [])
               = Inr (\<lparr>props = [(js ''format'', JStr [])], proto = ObjectPrototype\<rparr>, [])"
    by (simp add: validate_def_outcome params_get_plain format_empty_outcome example_obj_set
        empty_object_def)
  then have "validateParameters example_runtime (Some (plain [(js ''format'', JStr [])]))
               [format_def]
       = Inr \<lparr>props = [(js ''format'', JStr [])], proto = ObjectPrototype\<rparr>"
    by (simp add: validateParameters_def)
  then show ?thesis
    by (simp add: example_RegExp_format sanitize_empty)
qed

subsection \<open>Required parameters and defaults\<close>

text \<open>An optional parameter without a value from the caller is left out only when its
  definition has no \<open>defaultValue\<close> property at all.\<close>

lemma optional_without_default:
  assumes "\<not> def_required d" and "undefined_or_null (params_get params (def_name d))"
  shows "validate_def rt params d (validated, errors)
           = (if defaultValue d = JUndefined then Inr (validated, errors)
              else Inr (obj_set validated (def_name d) (defaultValue d), errors))"
  using assms by (simp add: validate_def_outcome outcome_of_def)

text \<open>
  Claim C9 at the input where it fails: an optional parameter whose definition holds the
  schema's \<open>null\<close> for "no default", and no value from the caller. The test
  \<open>def.defaultValue !== undefined\<close> holds for \<open>null\<close>, so the mapping gets an entry for the
  name, with the value \<open>null\<close>.
\<close>

theorem null_default_is_written:
  "validateParameters example_runtime (Some (plain [])) [verbose_def]
     = Inr \<lparr>props = [(js ''verbose'', JNull)], proto = ObjectPrototype\<rparr>"
  by (simp add: validateParameters_def validate_def_outcome outcome_of_def
      params_get_plain example_names_ordinary example_obj_set empty_object_def)




subsection \<open>Line endings\<close>

text \<open>
  Claim C8 at the input where it fails: the text \<open>a\r\r\nb\<close>. The single pass of
  \<open>.replace(/\r\n/g, '\n')\<close> leaves the first carriage return in front of the new line
  feed, so the validated text still holds the line ending \<open>\r\n\<close>.
\<close>

theorem carriage_return_survives_sanitizing:
  "validateParameterType example_runtime (js ''note'')
     (Data (JStr (js ''a'' @ [13, 13, 10] @ js ''b''))) TString
   = Inr (JStr (js ''a'' @ [13, 10] @ js ''b''))"
  by (simp add: sanitizeString.simps js_def control_char_def trim_def white_space_def)

subsection \<open>Validating a validated mapping\<close>

text \<open>
  Claim C7, as the code has it. Take a schema with pairwise distinct names, none of them the
  name of a property of \<open>Object.prototype\<close>, and parameters on which validation succeeds with
  the object \<open>V\<close>. Suppose that for every definition the entry of \<open>V\<close> is absent or \<open>null\<close>, or
  is in validated form for the definition (a number that is not \<open>NaN\<close>, a boolean, a clean text
  that matches the pattern, a list whose texts are clean), or was coerced from a value that
  the parameters hold (for a list: an array) and has no text with the pair carriage return,
  line feed. Then validating \<open>V\<close> succeeds and returns \<open>V\<close>.
\<close>

theorem validate_is_idempotent_on_validated_forms:
  assumes names: "distinct (map def_name defs)"
    and ordinary: "ordinary_names defs"
    and first: "validateParameters rt (Some raw) defs = Inr V"
    and entries: "\<forall>d \<in> set defs.
           nullish (entry V (def_name d))
           \<or> validated_form rt d (entry V (def_name d))
           \<or> (read_for (def_type d) (params_get raw (def_name d))
               \<and> crlf_free_value (entry V (def_name d)))"
  shows "validateParameters rt (Some (as_params rt V)) defs = Inr V"
proof -
  from first have run: "forEach (validate_def rt raw) defs (empty_object, []) = Inr (V, [])"
    by (simp add: validateParameters_Inr)
  from ordinary have ord: "def_name d \<notin> set Object_prototype_names" if "d \<in> set defs" for d
    using that by (simp add: ordinary_names_def list_all_iff)
  have np: "js ''__proto__'' \<notin> def_name ` set defs"
  proof
    assume "js ''__proto__'' \<in> def_name ` set defs"
    then obtain d where "d \<in> set defs" and "def_name d = js ''__proto__''"
      by auto
    with ord [of d] ordinary_not_proto [of "def_name d"] show False
      by simp
  qed
  have "proto V = proto (empty_object :: 'a jsobject)"
    using run np by (rule forEach_validate_proto)
  then have proto: "proto V = ObjectPrototype"
    by (simp add: empty_object_def)
  have same: "outcome_of rt d (params_get (as_params rt V) (def_name d))
                = outcome_of rt d (params_get raw (def_name d))"
    if mem: "d \<in> set defs" for d
  proof -
    let ?r = "params_get raw (def_name d)"
    let ?o = "outcome_of rt d ?r"
    have reread: "params_get (as_params rt V) (def_name d) = Data (entry V (def_name d))"
      using proto ord [OF mem] by (rule as_params_get)
    have written: "entry V (def_name d) = (case ?o of Write x \<Rightarrow> x | _ \<Rightarrow> JUndefined)"
      using forEach_validate_entry [OF run np names mem]
      by (simp add: entry_empty_object split: outcome.splits)
    have no_throw: "?o \<noteq> Throw er" for er
      using run mem by (rule forEach_validate_no_throw)
    have "List.map_filter (pushed rt raw) defs = []"
      using forEach_validate_errors [OF run] by simp
    then have "pushed rt raw d = None"
      using mem by (auto simp: List.map_filter_def filter_empty_conv)
    then have no_problem: "?o \<noteq> Problem m" for m
      by (auto simp: pushed_def)
    show ?thesis
    proof (cases ?o)
      case Skip
      with written have "undefined_or_null (Data (entry V (def_name d)))" by simp
      with Skip have "outcome_of rt d (Data (entry V (def_name d))) = Skip"
        by (rule outcome_Skip_nullish)
      with Skip show ?thesis by (simp add: reread)
    next
      case (Write x)
      with written have V: "entry V (def_name d) = x" by simp
      from entries mem V consider
          (null) "nullish x"
        | (form) "validated_form rt d x"
        | (coerced) "read_for (def_type d) ?r" "crlf_free_value x"
        by auto
      then have "outcome_of rt d (Data x) = Write x"
      proof cases
        case null
        with Write show ?thesis by (rule outcome_Write_nullish)
      next
        case form
        then show ?thesis by (rule validated_form_outcome)
      next
        case coerced
        with Write have "validated_form rt d x" by (rule coerced_validated_form)
        then show ?thesis by (rule validated_form_outcome)
      qed
      with V Write show ?thesis by (simp add: reread)
    next
      case (Problem m)
      with no_problem [of m] show ?thesis by simp
    next
      case (Throw er)
      with no_throw [of er] show ?thesis by simp
    qed
  qed
  have "forEach (validate_def rt (as_params rt V)) defs (empty_object, [])
          = forEach (validate_def rt raw) defs (empty_object, [])"
    using same by (rule forEach_validate_cong)
  with run show ?thesis
    by (simp add: validateParameters_Inr)
qed

lemma example_first_validation:
  "validateParameters example_runtime (Some (plain [(js ''count'', JStr (js ''5''))]))
     [format_def, count_def, verbose_def]
   = Inr \<lparr>props = [(js ''format'', JStr (js ''text'')), (js ''count'', JNum (Some 5)),
                   (js ''verbose'', JNull)],
          proto = ObjectPrototype\<rparr>"
proof -
  have nan: "\<not> isNaN example_runtime (Some 5)"
    by (simp add: example_runtime_def)
  show ?thesis
    by (simp add: validateParameters_def validate_def_outcome outcome_of_def params_get_plain
        example_names_ordinary example_obj_set empty_object_def pattern_check_def count_5 nan)
qed

lemma text_validated_form:
  "validated_form example_runtime format_def (JStr (js ''text''))"
proof -
  have "clean_text (js ''text'')"
    by (simp add: clean_text_def js_def control_char_def white_space_def)
  then show ?thesis
    by (simp add: validated_form_def pattern_check_def example_RegExp_format)
qed

theorem validate_is_idempotent_on_validated_forms_witness:
  "distinct (map def_name [format_def, count_def, verbose_def])
   \<and> ordinary_names [format_def, count_def, verbose_def]
   \<and> validateParameters example_runtime (Some (plain [(js ''count'', JStr (js ''5''))]))
        [format_def, count_def, verbose_def]
      = Inr \<lparr>props = [(js ''format'', JStr (js ''text'')), (js ''count'', JNum (Some 5)),
                      (js ''verbose'', JNull)],
             proto = ObjectPrototype\<rparr>
   \<and> validated_form example_runtime format_def (JStr (js ''text''))
   \<and> read_for TNumber (params_get (plain [(js ''count'', JStr (js ''5''))]) (js ''count'')
                         :: nat option property)
   \<and> validateParameters example_runtime
        (Some (as_params example_runtime
           \<lparr>props = [(js ''format'', JStr (js ''text'')), (js ''count'', JNum (Some 5)),
                     (js ''verbose'', JNull)],
            proto = ObjectPrototype\<rparr>))
        [format_def, count_def, verbose_def]
      = Inr \<lparr>props = [(js ''format'', JStr (js ''text'')), (js ''count'', JNum (Some 5)),
                      (js ''verbose'', JNull)],
             proto = ObjectPrototype\<rparr>"
proof -
  let ?raw = "plain [(js ''count'', JStr (js ''5''))] :: nat option params"
  let ?defs = "[format_def, count_def, verbose_def]"
  let ?V = "\<lparr>props = [(js ''format'', JStr (js ''text'')), (js ''count'', JNum (Some 5)),
                     (js ''verbose'', JNull)],
            proto = ObjectPrototype\<rparr> :: nat option jsobject"
  have names: "distinct (map def_name ?defs)"
    by simp
  have ordinary: "ordinary_names ?defs"
    by (simp add: ordinary_names_def example_names_ordinary)
  have first: "validateParameters example_runtime (Some ?raw) ?defs = Inr ?V"
    by (rule example_first_validation)
  have form: "validated_form example_runtime format_def (JStr (js ''text''))"
    by (rule text_validated_form)
  have held: "read_for TNumber (params_get ?raw (js ''count''))"
    by (simp add: read_for_def params_get_plain)
  have entries: "\<forall>d \<in> set ?defs.
           nullish (entry ?V (def_name d))
           \<or> validated_form example_runtime d (entry ?V (def_name d))
           \<or> (read_for (def_type d) (params_get ?raw (def_name d))
               \<and> crlf_free_value (entry ?V (def_name d)))"
    using form held by (simp add: entry_def crlf_free_value_def)
  have again: "validateParameters example_runtime (Some (as_params example_runtime ?V)) ?defs
                 = Inr ?V"
    using names ordinary first entries by (rule validate_is_idempotent_on_validated_forms)
  show ?thesis
    by (intro conjI names ordinary first form held again)
qed

text \<open>
  Claim C7 as stated fails for a default: it is stored without coercion, and the second
  validation coerces it as a supplied value. Here the default \<open>" report"\<close> comes back as
  \<open>"report"\<close>.
\<close>

theorem default_is_changed_by_a_second_validation:
  "validateParameters example_runtime (Some (plain [])) [title_def]
     = Inr \<lparr>props = [(js ''title'', JStr (js '' report''))], proto = ObjectPrototype\<rparr>
   \<and> validateParameters example_runtime
       (Some (as_params example_runtime
          \<lparr>props = [(js ''title'', JStr (js '' report''))], proto = ObjectPrototype\<rparr>))
       [title_def]
     = Inr \<lparr>props = [(js ''title'', JStr (js ''report''))], proto = ObjectPrototype\<rparr>"
proof -
  have trimmed: "sanitizeString (JStr (js '' report'')) = js ''report''"
    by (simp add: sanitizeString.simps js_def trim_def white_space_def control_char_def)
  have first: "validateParameters example_runtime (Some (plain [])) [title_def]
     = Inr \<lparr>props = [(js ''title'', JStr (js '' report''))], proto = ObjectPrototype\<rparr>"
    by (simp add: validateParameters_def validate_def_outcome outcome_of_def params_get_plain
        example_names_ordinary example_obj_set empty_object_def)
  have reread: "params_get (as_params example_runtime
          \<lparr>props = [(js ''title'', JStr (js '' report''))], proto = ObjectPrototype\<rparr>)
          (js ''title'') = Data (JStr (js '' report''))"
    by (simp add: params_get_def as_params_def)
  have second: "validateParameters example_runtime
       (Some (as_params example_runtime
          \<lparr>props = [(js ''title'', JStr (js '' report''))], proto = ObjectPrototype\<rparr>))
       [title_def]
     = Inr \<lparr>props = [(js ''title'', JStr (js ''report''))], proto = ObjectPrototype\<rparr>"
    by (simp add: validateParameters_def validate_def_outcome outcome_of_def reread trimmed
        example_obj_set empty_object_def pattern_check_def)
  from first second show ?thesis
    by (rule conjI)
qed

section \<open>Argument construction\<close>

lemma forEach_push:
  "forEach (\<lambda>item args'. case f item of None \<Rightarrow> Inl e | Some text \<Rightarrow> Inr (args' @ [g text]))
       items args
     = (case sequence (map f items) of None \<Rightarrow> Inl e | Some texts \<Rightarrow> Inr (args @ map g texts))"
  by (induction items arbitrary: args) (auto split: option.splits)

lemma push_args_entry:
  "push_args rt (name, value) args
     = (case entry_arguments rt name value of
          None \<Rightarrow> Inl TypeError
        | Some new \<Rightarrow> Inr (args @ new))"
  by (cases "value")
     (simp_all add: push_args_def entry_arguments_def forEach_push split: option.splits)

lemma forEach_push_args:
  "forEach (push_args rt) entries args
     = (case sequence (map (\<lambda>(name, value). entry_arguments rt name value) entries) of
          None \<Rightarrow> Inl TypeError
        | Some argss \<Rightarrow> Inr (args @ concat argss))"
  by (induction entries arbitrary: args) (auto simp: push_args_entry split: option.splits)

lemma Object_entries_insertion_order:
  assumes "\<forall>p \<in> set (props params). \<not> is_array_index (fst p)"
  shows "Object_entries params = props params"
proof -
  from assms have "filter (\<lambda>p. is_array_index (fst p)) (props params) = []"
    by (simp add: filter_empty_conv)
  moreover from assms have "filter (\<lambda>p. \<not> is_array_index (fst p)) (props params) = props params"
    by (simp add: filter_id_conv)
  ultimately show ?thesis
    by (simp add: Object_entries_def)
qed

text \<open>
  Claim C5, as the code has it. Each entry of the validated object has its arguments: none
  for \<open>null\<close>, \<open>undefined\<close> and \<open>false\<close>, the bare flag for \<open>true\<close>, one \<open>--name=element\<close> per
  element of a list, \<open>--name=value\<close> otherwise; a value or an element that has no string form
  (an object with an own property \<open>toString\<close>, or a list that holds one) has none. When every
  entry has its arguments, the argument vector is their concatenation, over the entries as
  \<open>Object.entries\<close> enumerates them; otherwise a \<open>TypeError\<close> is thrown and there is no
  argument vector. When no name is an array index the enumeration is the insertion order.
\<close>

theorem arguments_follow_the_enumeration_of_the_mapping:
  "paramsToArgs rt params
     = (case sequence (map (\<lambda>(name, value). entry_arguments rt name value)
                           (Object_entries params)) of
          None \<Rightarrow> Inl TypeError
        | Some argss \<Rightarrow> Inr (concat argss))
   \<and> ((\<forall>p \<in> set (props params). \<not> is_array_index (fst p))
        \<longrightarrow> Object_entries params = props params)"
proof (intro conjI impI)
  show "paramsToArgs rt params
     = (case sequence (map (\<lambda>(name, value). entry_arguments rt name value)
                           (Object_entries params)) of
          None \<Rightarrow> Inl TypeError
        | Some argss \<Rightarrow> Inr (concat argss))"
    by (simp add: paramsToArgs_def forEach_push_args split: option.splits)
next
  assume "\<forall>p \<in> set (props params). \<not> is_array_index (fst p)"
  then show "Object_entries params = props params"
    by (rule Object_entries_insertion_order)
qed

lemma validated_example_names:
  "\<forall>p \<in> set (props validated_example). \<not> is_array_index (fst p)"
  by (simp add: validated_example_def is_array_index_def js_def is_digit_def)

lemma decimal_3: "decimal 3 = js ''3''"
  by (simp add: decimal.simps js_def)

theorem arguments_follow_the_enumeration_of_the_mapping_witness:
  "Object_entries validated_example = props validated_example
   \<and> paramsToArgs example_runtime validated_example
       = Inr [js ''--'' @ js ''format'' @ js ''='' @ js ''json'',
              js ''--'' @ js ''verbose'',
              js ''--'' @ js ''tags'' @ js ''='' @ js ''a'',
              js ''--'' @ js ''tags'' @ js ''='' @ js ''b'',
              js ''--'' @ js ''count'' @ js ''='' @ js ''3'']"
proof -
  note inst = arguments_follow_the_enumeration_of_the_mapping [of example_runtime validated_example]
  from inst validated_example_names
  have entries: "Object_entries validated_example = props validated_example"
    by blast
  have num: "String_of_number example_runtime (Some 3) = js ''3''"
    by (simp add: example_runtime_def decimal_3)
  have each: "sequence (map (\<lambda>(name, value). entry_arguments example_runtime name value)
                          (props validated_example))
     = Some [[js ''--'' @ js ''format'' @ js ''='' @ js ''json''],
             [js ''--'' @ js ''verbose''],
             [],
             [js ''--'' @ js ''tags'' @ js ''='' @ js ''a'',
              js ''--'' @ js ''tags'' @ js ''='' @ js ''b''],
             [js ''--'' @ js ''count'' @ js ''='' @ js ''3''],
             []]"
    by (simp add: validated_example_def entry_arguments_def num)
  from inst have "paramsToArgs example_runtime validated_example
     = (case sequence (map (\<lambda>(name, value). entry_arguments example_runtime name value)
                           (props validated_example)) of
          None \<Rightarrow> Inl TypeError
        | Some argss \<Rightarrow> Inr (concat argss))"
    unfolding entries by (rule conjunct1)
  then have "paramsToArgs example_runtime validated_example
       = Inr [js ''--'' @ js ''format'' @ js ''='' @ js ''json'',
              js ''--'' @ js ''verbose'',
              js ''--'' @ js ''tags'' @ js ''='' @ js ''a'',
              js ''--'' @ js ''tags'' @ js ''='' @ js ''b'',
              js ''--'' @ js ''count'' @ js ''='' @ js ''3'']"
    unfolding each by simp
  with entries show ?thesis
    by (rule conjI)
qed

text \<open>An object with an own property \<open>toString\<close>, as \<open>JSON.parse\<close> gives for the text
  \<open>{"toString":1}\<close>, has no string form: the template literal throws.\<close>

lemma object_without_string_form:
  "paramsToArgs example_runtime
     \<lparr>props = [(js ''format'', JObj [(js ''toString'', JNum (Some 1))])], proto = ObjectPrototype\<rparr>
   = Inl TypeError"
proof -
  have "\<not> is_array_index (js ''format'')"
    by (simp add: is_array_index_def js_def is_digit_def)
  then show ?thesis
    by (simp add: paramsToArgs_def Object_entries_def push_args_def)
qed

lemma not_index_b: "\<not> is_array_index (js ''b'')"
  by (simp add: is_array_index_def js_def is_digit_def)

lemma index_1: "is_array_index (js ''1'')"
  by (simp add: is_array_index_def js_def is_digit_def index_value_def)

text \<open>
  Claim C5 as stated fails for a name that is an array index: \<open>Object.entries\<close> puts it
  before the names that are not, whatever the insertion order. The mapping built by
  inserting \<open>b\<close> and then \<open>1\<close> gives the argument of \<open>1\<close> first.
\<close>

theorem index_names_come_first:
  "obj_set (obj_set (empty_object :: nat option jsobject) (js ''b'') (JStr (js ''x'')))
       (js ''1'') (JStr (js ''y''))
     = \<lparr>props = [(js ''b'', JStr (js ''x'')), (js ''1'', JStr (js ''y''))],
        proto = ObjectPrototype\<rparr>
   \<and> paramsToArgs example_runtime
        (obj_set (obj_set empty_object (js ''b'') (JStr (js ''x''))) (js ''1'') (JStr (js ''y'')))
     = Inr [js ''--'' @ js ''1'' @ js ''='' @ js ''y'', js ''--'' @ js ''b'' @ js ''='' @ js ''x'']"
proof -
  let ?obj = "\<lparr>props = [(js ''b'', JStr (js ''x'')), (js ''1'', JStr (js ''y''))],
               proto = ObjectPrototype\<rparr> :: nat option jsobject"
  have built: "obj_set (obj_set empty_object (js ''b'') (JStr (js ''x''))) (js ''1'')
                 (JStr (js ''y'')) = ?obj"
    by (simp add: obj_set_def empty_object_def)
  have entries: "Object_entries ?obj = [(js ''1'', JStr (js ''y'')), (js ''b'', JStr (js ''x''))]"
    by (simp add: Object_entries_def not_index_b index_1)
  have "paramsToArgs example_runtime ?obj
     = Inr [js ''--'' @ js ''1'' @ js ''='' @ js ''y'', js ''--'' @ js ''b'' @ js ''='' @ js ''x'']"
    by (simp add: paramsToArgs_def entries push_args_def)
  with built show ?thesis
    by simp
qed

section \<open>Execution\<close>

lemma system_info_found:
  "getModuleById example_runtime slow_world (JStr (js ''system_info'')) = Inr system_info"
  unfolding getModuleById_string sanitize_system_info
  by (simp add: example_world_def slow_world_def system_info_def Module_findOne_def)

lemma clean_system_info: "filter script_name_char (js ''system-info.sh'') = js ''system-info.sh''"
  by (simp add: js_def script_name_char_def)

lemma system_info_path:
  "getScriptPath example_runtime slow_world (js ''system-info.sh'')
     = Some (js ''/srv/app'' @ js ''/'' @ js ''scripts'' @ js ''/'' @ js ''system-info.sh'')"
  unfolding getScriptPath_def clean_system_info
  by (simp add: example_runtime_def slow_world_def example_world_def)

lemma defaults_validated:
  "validateParameters example_runtime None [format_def, detail_def]
     = Inr \<lparr>props = [(js ''format'', JStr (js ''text'')), (js ''detail'', JStr (js ''normal''))],
            proto = ObjectPrototype\<rparr>"
  by (simp add: validateParameters_def validate_def_outcome outcome_of_def params_get_plain
      example_names_ordinary example_obj_set empty_object_def)

lemma not_index_format: "\<not> is_array_index (js ''format'')"
  by (simp add: is_array_index_def js_def is_digit_def)

lemma not_index_detail: "\<not> is_array_index (js ''detail'')"
  by (simp add: is_array_index_def js_def is_digit_def)

lemma default_args:
  "paramsToArgs example_runtime
      \<lparr>props = [(js ''format'', JStr (js ''text'')), (js ''detail'', JStr (js ''normal''))],
        proto = ObjectPrototype\<rparr>
     = Inr [js ''--'' @ js ''format'' @ js ''='' @ js ''text'',
            js ''--'' @ js ''detail'' @ js ''='' @ js ''normal'']"
  by (simp add: paramsToArgs_def Object_entries_def not_index_format not_index_detail
      push_args_def)

lemma decimal_100: "decimal 100 = js ''100''"
  by (simp add: decimal.simps js_def)

text \<open>Of the objects that \<open>executeScript\<close> returns, only a successful one has the property
  \<open>executionTime\<close>.\<close>

lemma failure_has_no_executionTime:
  "fst (executeScript rt w mid parameters userId) = Inr r
     \<Longrightarrow> success r \<or> executionTime r = None"
  by (auto simp: executeScript_def executeScript_try_def failure_def Let_def
      split: sum.splits option.splits)

lemma success_has_executionTime:
  "fst (executeScript rt w mid parameters userId) = Inr r \<Longrightarrow> success r
     \<Longrightarrow> \<exists>t. executionTime r = Some t"
  by (auto simp: executeScript_def executeScript_try_def failure_def Let_def
      split: sum.splits option.splits)

text \<open>
  Claim C6 at an input where it fails: a run that the timer ends after 100 ms. The error
  thrown by \<open>executeScriptWithTimeout\<close> carries the elapsed time, and the object that
  \<open>executeScript\<close> returns from its \<open>catch\<close> block has no \<open>executionTime\<close>.
\<close>

theorem timed_out_result_has_no_elapsed_time:
  "fst (executeScriptWithTimeout example_runtime slow_world
          (js ''/srv/app'' @ js ''/'' @ js ''scripts'' @ js ''/'' @ js ''system-info.sh'')
          [js ''--'' @ js ''format'' @ js ''='' @ js ''text'',
           js ''--'' @ js ''detail'' @ js ''='' @ js ''normal'']
          100 (js ''u1''))
     = Inl \<lparr>err_message = js ''Script execution timed out after '' @ js ''100'' @ js ''ms'',
            err_stderr = None, err_executionTime = Some 100\<rparr>
   \<and> executeScript example_runtime slow_world (JStr (js ''system_info'')) None (js ''u1'')
     = (Inr \<lparr>success = False, res_moduleId = JStr (js ''system_info''), res_scriptName = None,
             result = None, executionTime = None,
             error = Some (js ''Script execution timed out after '' @ js ''100'' @ js ''ms''),
             res_stderr = None\<rparr>,
        [\<lparr>sp_file = js ''/srv/app'' @ js ''/'' @ js ''scripts'' @ js ''/'' @ js ''system-info.sh'',
          sp_args = [js ''--'' @ js ''format'' @ js ''='' @ js ''text'',
                     js ''--'' @ js ''detail'' @ js ''='' @ js ''normal''],
          sp_timeout = 100, sp_USER_ID = js ''u1'', sp_SCRIPT_TIMEOUT_MS = js ''100''\<rparr>])"
proof -
  have run: "executeScriptWithTimeout example_runtime slow_world
          (js ''/srv/app'' @ js ''/'' @ js ''scripts'' @ js ''/'' @ js ''system-info.sh'')
          [js ''--'' @ js ''format'' @ js ''='' @ js ''text'',
           js ''--'' @ js ''detail'' @ js ''='' @ js ''normal'']
          100 (js ''u1'')
     = (Inl \<lparr>err_message = js ''Script execution timed out after '' @ js ''100'' @ js ''ms'',
            err_stderr = None, err_executionTime = Some 100\<rparr>,
        [\<lparr>sp_file = js ''/srv/app'' @ js ''/'' @ js ''scripts'' @ js ''/'' @ js ''system-info.sh'',
          sp_args = [js ''--'' @ js ''format'' @ js ''='' @ js ''text'',
                     js ''--'' @ js ''detail'' @ js ''='' @ js ''normal''],
          sp_timeout = 100, sp_USER_ID = js ''u1'', sp_SCRIPT_TIMEOUT_MS = js ''100''\<rparr>])"
    by (simp add: executeScriptWithTimeout_def decimal_100 slow_world_def example_world_def)
  have limit: "MAX_SCRIPT_RUNTIME slow_world = 100"
    by (simp add: slow_world_def)
  have script: "scriptName system_info = js ''system-info.sh''"
      and defs: "parameterDefinitions system_info = [format_def, detail_def]"
    by (simp_all add: system_info_def)
  have attempt: "executeScript_try example_runtime slow_world (JStr (js ''system_info'')) None
                   (js ''u1'')
     = (Inl \<lparr>err_message = js ''Script execution timed out after '' @ js ''100'' @ js ''ms'',
              err_stderr = None, err_executionTime = Some 100\<rparr>,
        [\<lparr>sp_file = js ''/srv/app'' @ js ''/'' @ js ''scripts'' @ js ''/'' @ js ''system-info.sh'',
          sp_args = [js ''--'' @ js ''format'' @ js ''='' @ js ''text'',
                     js ''--'' @ js ''detail'' @ js ''='' @ js ''normal''],
          sp_timeout = 100, sp_USER_ID = js ''u1'', sp_SCRIPT_TIMEOUT_MS = js ''100''\<rparr>])"
    unfolding executeScript_try_def system_info_found sum.case script system_info_path option.case
      defs defaults_validated default_args Let_def limit run fst_conv snd_conv
    by (rule refl)
  have "executeScript example_runtime slow_world (JStr (js ''system_info'')) None (js ''u1'')
     = (Inr (failure (JStr (js ''system_info''))
               \<lparr>err_message = js ''Script execution timed out after '' @ js ''100'' @ js ''ms'',
                 err_stderr = None, err_executionTime = Some 100\<rparr>),
        [\<lparr>sp_file = js ''/srv/app'' @ js ''/'' @ js ''scripts'' @ js ''/'' @ js ''system-info.sh'',
          sp_args = [js ''--'' @ js ''format'' @ js ''='' @ js ''text'',
                     js ''--'' @ js ''detail'' @ js ''='' @ js ''normal''],
          sp_timeout = 100, sp_USER_ID = js ''u1'', sp_SCRIPT_TIMEOUT_MS = js ''100''\<rparr>])"
    unfolding executeScript_def attempt Let_def fst_conv snd_conv sum.case template_string
    by (rule refl)
  then show ?thesis
    by (simp add: run failure_def)
qed

end
